theory Spec2Isabelle
  imports Main "HOL-Library.AList"
begin

section \<open>Python values, dictionaries and exceptions\<close>

text \<open>
  The exporter moves flat dictionaries around: string keys, primitive values.
  Strings are byte strings (the UTF-8 encoding of the Python text), so the two
  Russian display labels of \<^verbatim>\<open>file_manager.py\<close> are written out as bytes.
  A dictionary is an association list with the insertion order of Python's
  \<^verbatim>\<open>dict\<close>; \<^const>\<open>AList.update\<close> overwrites a key in place and appends
  a new one, as item assignment does.
\<close>

datatype val = VStr string | VInt int | VBool bool

type_synonym dict = "(string \<times> val) list"

datatype error = ValueError | JSONDecodeError | KeyError | AttributeError | RemoteError

text \<open>\<^verbatim>\<open>d.get(k, dflt)\<close>\<close>

definition dict_get :: "dict \<Rightarrow> string \<Rightarrow> val \<Rightarrow> val" where
  "dict_get d k dflt = (case map_of d k of None \<Rightarrow> dflt | Some v \<Rightarrow> v)"

text \<open>\<^verbatim>\<open>d.update(u)\<close>\<close>

definition dict_update :: "dict \<Rightarrow> dict \<Rightarrow> dict" where
  "dict_update d u = fold (\<lambda>kv. AList.update (fst kv) (snd kv)) u d"

text \<open>Truth value of an object in a condition.\<close>

fun truthy :: "val \<Rightarrow> bool" where
  "truthy (VStr s) = (s \<noteq> [])"
| "truthy (VInt i) = (i \<noteq> 0)"
| "truthy (VBool b) = b"

text \<open>
  \<^verbatim>\<open>str.lower\<close> and \<^verbatim>\<open>str.strip\<close> are methods of Python's own
  string type, Unicode-aware and defined outside this repository. The functions
  that call them take them as the arguments \<open>str_lower\<close> and \<open>str_strip\<close>,
  so that every property holds for whatever the two methods compute.
\<close>

text \<open>\<^verbatim>\<open>str(v)\<close>, used by the f-string of the chat-member label.\<close>

fun str_of_nat :: "nat \<Rightarrow> string" where
  "str_of_nat n =
     (if n < 10 then [char_of (48 + n)]
      else str_of_nat (n div 10) @ [char_of (48 + n mod 10)])"

fun py_str :: "val \<Rightarrow> string" where
  "py_str (VStr s) = s"
| "py_str (VInt i) = (if i < 0 then CHR ''-'' # str_of_nat (nat (- i)) else str_of_nat (nat i))"
| "py_str (VBool b) = (if b then ''True'' else ''False'')"

text \<open>\<^verbatim>\<open>xs[k:]\<close> for an integer \<open>k\<close> of either sign.\<close>

definition py_slice_from :: "'a list \<Rightarrow> int \<Rightarrow> 'a list" where
  "py_slice_from xs k =
     (if 0 \<le> k then drop (nat k) xs else drop (nat (int (length xs) + k)) xs)"

section \<open>The files of a session\<close>

text \<open>
  A JSON file is absent, present but rejected by \<^verbatim>\<open>json.load\<close>, or holds a
  document. A CSV file is absent or a list of rows; a row is the list of its
  cells. The progress document maps an export kind to an entry whose keys are
  read with \<^verbatim>\<open>.get(key, default)\<close>, so every key may be absent.
\<close>

datatype 'a json_file = Missing | Malformed | Doc 'a

type_synonym csv_row = "val list"

type_synonym csv_file = "csv_row list option"

record progress_entry =
  pe_timestamp :: "nat option"
  pe_completed :: "int option"
  pe_total :: "int option"
  pe_finished :: "bool option"
  pe_processed_items :: "int list option"

type_synonym progress_doc = "(string \<times> progress_entry) list"

text \<open>
  The text of a JSON file is fixed by its document and by how the text is laid
  out. \<^verbatim>\<open>json.dump(..., indent=2)\<close> puts every member on a line of its own,
  two spaces deeper per nesting level; without \<^verbatim>\<open>indent\<close> the text is one line.
  These two layouts are modelled for the progress file.
\<close>

datatype layout = Indent2 | OneLine

datatype nick_file = NoFile | Unreadable | Lines "string list"

text \<open>Calls made to the remote client, in order.\<close>

datatype call = GetContacts | GetChats | GetAllGroupChats | GetChatMembers int

record world =
  current_session :: "string option"
  clock :: nat
  calls :: "call list"
  progress_file :: "progress_doc json_file"
  progress_layout :: layout
  contacts_csv :: csv_file
  contacts_json :: "dict list json_file"
  chats_csv :: csv_file
  dialogs_json :: "dict list json_file"
  members_csv :: csv_file
  members_json :: "dict list json_file"
  matches_csv :: csv_file
  matches_json :: "dict list json_file"
  nicknames_file :: nick_file

text \<open>\<^verbatim>\<open>if not self.current_session\<close>: \<^verbatim>\<open>None\<close> and the empty name both count as unset.\<close>

definition has_session :: "world \<Rightarrow> bool" where
  "has_session w = (case current_session w of None \<Rightarrow> False | Some s \<Rightarrow> s \<noteq> [])"

definition get_or :: "'a option \<Rightarrow> 'a \<Rightarrow> 'a" where
  "get_or x dflt = (case x of None \<Rightarrow> dflt | Some v \<Rightarrow> v)"

section \<open>FileManager: progress\<close>

definition load_progress :: "world \<Rightarrow> error + progress_doc" where
  "load_progress w =
     (if \<not> has_session w then Inr []
      else case progress_file w of
             Missing \<Rightarrow> Inr []
           | Malformed \<Rightarrow> Inl JSONDecodeError
           | Doc d \<Rightarrow> Inr d)"

text \<open>The entry \<^verbatim>\<open>save_progress\<close> builds from \<^verbatim>\<open>data\<close> and the wall clock.\<close>

definition stamped_entry :: "nat \<Rightarrow> progress_entry \<Rightarrow> progress_entry" where
  "stamped_entry now data =
     \<lparr>pe_timestamp = Some now,
      pe_completed = Some (get_or (pe_completed data) 0),
      pe_total = Some (get_or (pe_total data) 0),
      pe_finished = Some (get_or (pe_finished data) False),
      pe_processed_items = Some (get_or (pe_processed_items data) [])\<rparr>"

definition save_progress :: "string \<Rightarrow> progress_entry \<Rightarrow> world \<Rightarrow> (error + unit) \<times> world" where
  "save_progress export_type data w =
     (if \<not> has_session w then (Inl ValueError, w)
      else case load_progress w of
             Inl e \<Rightarrow> (Inl e, w)
           | Inr current_progress \<Rightarrow>
               (Inr (),
                w\<lparr>clock := clock w + 1,
                  progress_file :=
                    Doc (AList.update export_type (stamped_entry (clock w) data) current_progress),
                  progress_layout := Indent2\<rparr>))"

text \<open>
  What \<^verbatim>\<open>json.dump\<close> writes for a progress document in a layout, with
  \<^verbatim>\<open>ensure_ascii=False\<close>: strings are quoted, with the quote, the backslash and the
  control characters escaped; items are separated by a comma (and a space on
  one line), keys from values by a colon and a space; an empty object or list
  has nothing between its brackets. The keys of an entry come in the order
  \<^const>\<open>save_progress\<close> writes them. A time stamp is a clock reading;
  \<open>isoformat\<close> is how \<^verbatim>\<open>datetime.isoformat\<close> prints it.
\<close>

definition hex_digit :: "nat \<Rightarrow> char" where
  "hex_digit n = (if n < 10 then char_of (48 + n) else char_of (87 + n))"

definition json_escape :: "char \<Rightarrow> string" where
  "json_escape c =
     (let n = (of_char c :: nat) in
      if n = 34 then [CHR 0x5C, CHR 0x22]
      else if n = 92 then [CHR 0x5C, CHR 0x5C]
      else if n = 10 then [CHR 0x5C, CHR ''n'']
      else if n = 13 then [CHR 0x5C, CHR ''r'']
      else if n = 9 then [CHR 0x5C, CHR ''t'']
      else if n = 8 then [CHR 0x5C, CHR ''b'']
      else if n = 12 then [CHR 0x5C, CHR ''f'']
      else if n < 32 then
        [CHR 0x5C, CHR ''u'', CHR ''0'', CHR ''0'', hex_digit (n div 16), hex_digit (n mod 16)]
      else [c])"

definition json_string :: "string \<Rightarrow> string" where
  "json_string s = CHR 0x22 # concat (map json_escape s) @ [CHR 0x22]"

definition newline_indent :: "layout \<Rightarrow> nat \<Rightarrow> string" where
  "newline_indent l level =
     (case l of Indent2 \<Rightarrow> CHR 0x0A # replicate (2 * level) (CHR 0x20) | OneLine \<Rightarrow> [])"

definition item_separator :: "layout \<Rightarrow> nat \<Rightarrow> string" where
  "item_separator l level =
     (case l of Indent2 \<Rightarrow> '','' @ newline_indent Indent2 level | OneLine \<Rightarrow> '', '')"

fun join :: "string \<Rightarrow> string list \<Rightarrow> string" where
  "join sep [] = []"
| "join sep [x] = x"
| "join sep (x # y # ys) = x @ sep @ join sep (y # ys)"

definition dump_items :: "layout \<Rightarrow> nat \<Rightarrow> string \<Rightarrow> string \<Rightarrow> string list \<Rightarrow> string" where
  "dump_items l level opening closing items =
     (if items = [] then opening @ closing
      else opening @ newline_indent l (level + 1) @
           join (item_separator l (level + 1)) items @
           newline_indent l level @ closing)"

definition dump_member :: "string \<Rightarrow> string \<Rightarrow> string" where
  "dump_member key text = json_string key @ '': '' @ text"

definition dump_int :: "int \<Rightarrow> string" where
  "dump_int i = py_str (VInt i)"

definition dump_bool :: "bool \<Rightarrow> string" where
  "dump_bool b = (if b then ''true'' else ''false'')"

definition entry_members :: "(nat \<Rightarrow> string) \<Rightarrow> layout \<Rightarrow> nat \<Rightarrow> progress_entry \<Rightarrow> string list" where
  "entry_members isoformat l level e =
     (case pe_timestamp e of
        None \<Rightarrow> []
      | Some t \<Rightarrow> [dump_member ''timestamp'' (json_string (isoformat t))]) @
     (case pe_completed e of
        None \<Rightarrow> []
      | Some c \<Rightarrow> [dump_member ''completed'' (dump_int c)]) @
     (case pe_total e of
        None \<Rightarrow> []
      | Some t \<Rightarrow> [dump_member ''total'' (dump_int t)]) @
     (case pe_finished e of
        None \<Rightarrow> []
      | Some f \<Rightarrow> [dump_member ''finished'' (dump_bool f)]) @
     (case pe_processed_items e of
        None \<Rightarrow> []
      | Some ids \<Rightarrow>
          [dump_member ''processed_items''
             (dump_items l (level + 1) ''['' '']'' (map dump_int ids))])"

definition dump_entry :: "(nat \<Rightarrow> string) \<Rightarrow> layout \<Rightarrow> nat \<Rightarrow> progress_entry \<Rightarrow> string" where
  "dump_entry isoformat l level e = dump_items l level ''{'' ''}'' (entry_members isoformat l level e)"

definition dump_progress :: "(nat \<Rightarrow> string) \<Rightarrow> layout \<Rightarrow> progress_doc \<Rightarrow> string" where
  "dump_progress isoformat l d =
     dump_items l 0 ''{'' ''}''
       (map (\<lambda>ke. dump_member (fst ke) (dump_entry isoformat l 1 (snd ke))) d)"

text \<open>The bytes of the progress file, when it holds a document.\<close>

definition progress_text :: "(nat \<Rightarrow> string) \<Rightarrow> world \<Rightarrow> string option" where
  "progress_text isoformat w =
     (case progress_file w of
        Doc d \<Rightarrow> Some (dump_progress isoformat (progress_layout w) d)
      | Missing \<Rightarrow> None
      | Malformed \<Rightarrow> None)"

section \<open>FileManager: record writers\<close>

text \<open>
  \<^verbatim>\<open>csv.DictWriter\<close> with its defaults: a key outside the field names raises
  \<^verbatim>\<open>ValueError\<close>, a missing key is written as the empty string. Rows reach the
  file one by one, so the rows before a rejected one stay written.
\<close>

definition dict_to_list :: "string list \<Rightarrow> dict \<Rightarrow> error + csv_row" where
  "dict_to_list fieldnames rowdict =
     (if list_ex (\<lambda>k. k \<notin> set fieldnames) (map fst rowdict) then Inl ValueError
      else Inr (map (\<lambda>key. dict_get rowdict key (VStr [])) fieldnames))"

fun writerows :: "string list \<Rightarrow> dict list \<Rightarrow> csv_row list \<Rightarrow> (error + unit) \<times> csv_row list" where
  "writerows fieldnames [] rows = (Inr (), rows)"
| "writerows fieldnames (r # rs) rows =
     (case dict_to_list fieldnames r of
        Inl e \<Rightarrow> (Inl e, rows)
      | Inr row \<Rightarrow> writerows fieldnames rs (rows @ [row]))"

definition writeheader :: "string list \<Rightarrow> csv_row" where
  "writeheader fieldnames = map VStr fieldnames"

definition contacts_fieldnames :: "string list" where
  "contacts_fieldnames =
     [''id'', ''first_name'', ''last_name'', ''username'', ''phone'', ''is_bot'', ''is_contact'']"

definition chats_fieldnames :: "string list" where
  "chats_fieldnames =
     [''id'', ''first_name'', ''last_name'', ''username'', ''phone'', ''is_contact'',
      ''last_message_date'', ''unread_count'']"

definition members_fieldnames :: "string list" where
  "members_fieldnames =
     [''chat_id'', ''chat_title'', ''chat_type'', ''user_id'', ''first_name'', ''last_name'',
      ''username'', ''phone'', ''is_bot'', ''is_premium'', ''is_verified'']"

definition matches_fieldnames :: "string list" where
  "matches_fieldnames =
     [''source'', ''found_in_chat'', ''chat_id'', ''id'', ''first_name'', ''last_name'',
      ''username'', ''phone'', ''is_bot'', ''is_contact'', ''is_premium'', ''is_verified'',
      ''last_message_date'', ''unread_count'', ''matched_nick'']"

definition save_contacts_to_files :: "dict list \<Rightarrow> world \<Rightarrow> (error + nat) \<times> world" where
  "save_contacts_to_files contacts w =
     (if \<not> has_session w then (Inl ValueError, w)
      else case writerows contacts_fieldnames contacts [writeheader contacts_fieldnames] of
             (Inl e, rows) \<Rightarrow> (Inl e, w\<lparr>contacts_csv := Some rows\<rparr>)
           | (Inr u, rows) \<Rightarrow>
               (Inr (length contacts),
                w\<lparr>contacts_csv := Some rows, contacts_json := Doc contacts\<rparr>))"

definition save_chats_to_files :: "dict list \<Rightarrow> world \<Rightarrow> (error + nat) \<times> world" where
  "save_chats_to_files chats w =
     (if \<not> has_session w then (Inl ValueError, w)
      else case writerows chats_fieldnames chats [writeheader chats_fieldnames] of
             (Inl e, rows) \<Rightarrow> (Inl e, w\<lparr>chats_csv := Some rows\<rparr>)
           | (Inr u, rows) \<Rightarrow>
               (Inr (length chats),
                w\<lparr>chats_csv := Some rows, dialogs_json := Doc chats\<rparr>))"

text \<open>
  The chat-member writer. The CSV is opened in mode \<^verbatim>\<open>a\<close> when appending to an
  existing file and in mode \<^verbatim>\<open>w\<close>, with a header, otherwise; the JSON is read
  back (an absent or rejected file counts as empty) and rewritten whole.
\<close>

definition save_chat_members_to_files :: "dict list \<Rightarrow> bool \<Rightarrow> world \<Rightarrow> (error + nat) \<times> world" where
  "save_chat_members_to_files members append_flag w =
     (if members = [] then (Inr 0, w)
      else if \<not> has_session w then (Inl ValueError, w)
      else
        let opened =
              (case members_csv w of
                 None \<Rightarrow> [writeheader members_fieldnames]
               | Some old \<Rightarrow> if append_flag then old else [writeheader members_fieldnames])
        in case writerows members_fieldnames members opened of
             (Inl e, rows) \<Rightarrow> (Inl e, w\<lparr>members_csv := Some rows\<rparr>)
           | (Inr u, rows) \<Rightarrow>
               (let existing_members =
                      (if append_flag then (case members_json w of Doc ms \<Rightarrow> ms | _ \<Rightarrow> []) else []);
                    all_members = (if append_flag then existing_members @ members else members)
                in (Inr (length members),
                    w\<lparr>members_csv := Some rows, members_json := Doc all_members\<rparr>)))"

section \<open>FileManager: the nickname cross-reference\<close>

definition load_nicknames_list :: "(string \<Rightarrow> string) \<Rightarrow> (string \<Rightarrow> string) \<Rightarrow> world \<Rightarrow> string set" where
  "load_nicknames_list str_lower str_strip w =
     (case nicknames_file w of
        NoFile \<Rightarrow> {}
      | Unreadable \<Rightarrow> {}
      | Lines ls \<Rightarrow>
          set (map (\<lambda>line. str_lower (str_strip line))
                   (filter (\<lambda>line. str_strip line \<noteq> []) ls)))"

text \<open>The labels \<^verbatim>\<open>found_in_chat\<close> gets for contacts and for direct dialogs.\<close>

definition label_contacts :: string where
  "label_contacts =
     [CHR 0xD0, CHR 0x9A, CHR 0xD0, CHR 0xBE, CHR 0xD0, CHR 0xBD, CHR 0xD1, CHR 0x82,
      CHR 0xD0, CHR 0xB0, CHR 0xD0, CHR 0xBA, CHR 0xD1, CHR 0x82, CHR 0xD1, CHR 0x8B]"

definition label_dialogs :: string where
  "label_dialogs =
     [CHR 0xD0, CHR 0x9B, CHR 0xD0, CHR 0xB8, CHR 0xD1, CHR 0x87, CHR 0xD0, CHR 0xBD,
      CHR 0xD1, CHR 0x8B, CHR 0xD0, CHR 0xB5, CHR 0x20, CHR 0xD1, CHR 0x81, CHR 0xD0,
      CHR 0xBE, CHR 0xD0, CHR 0xBE, CHR 0xD0, CHR 0xB1, CHR 0xD1, CHR 0x89, CHR 0xD0,
      CHR 0xB5, CHR 0xD0, CHR 0xBD, CHR 0xD0, CHR 0xB8, CHR 0xD1, CHR 0x8F]"

definition contact_info :: "(string \<Rightarrow> string) \<Rightarrow> dict \<Rightarrow> string \<Rightarrow> dict" where
  "contact_info str_lower contact username =
     [(''source'', VStr ''contacts''),
      (''found_in_chat'', VStr label_contacts),
      (''chat_id'', VStr []),
      (''id'', dict_get contact ''id'' (VStr [])),
      (''first_name'', dict_get contact ''first_name'' (VStr [])),
      (''last_name'', dict_get contact ''last_name'' (VStr [])),
      (''username'', VStr username),
      (''phone'', dict_get contact ''phone'' (VStr [])),
      (''is_bot'', dict_get contact ''is_bot'' (VBool False)),
      (''matched_nick'', VStr (str_lower username))]"

definition dialog_info :: "(string \<Rightarrow> string) \<Rightarrow> dict \<Rightarrow> string \<Rightarrow> dict" where
  "dialog_info str_lower dialog username =
     [(''source'', VStr ''chats''),
      (''found_in_chat'', VStr label_dialogs),
      (''chat_id'', dict_get dialog ''id'' (VStr [])),
      (''id'', dict_get dialog ''id'' (VStr [])),
      (''first_name'', dict_get dialog ''first_name'' (VStr [])),
      (''last_name'', dict_get dialog ''last_name'' (VStr [])),
      (''username'', VStr username),
      (''phone'', dict_get dialog ''phone'' (VStr [])),
      (''is_contact'', dict_get dialog ''is_contact'' (VBool False)),
      (''last_message_date'', dict_get dialog ''last_message_date'' (VStr [])),
      (''unread_count'', dict_get dialog ''unread_count'' (VInt 0)),
      (''matched_nick'', VStr (str_lower username))]"

definition member_info :: "(string \<Rightarrow> string) \<Rightarrow> dict \<Rightarrow> string \<Rightarrow> dict" where
  "member_info str_lower member username =
     [(''source'', VStr ''chat_members''),
      (''found_in_chat'',
         VStr (py_str (dict_get member ''chat_title'' (VStr [])) @ '' ('' @
               py_str (dict_get member ''chat_type'' (VStr [])) @ '')'')),
      (''chat_id'', dict_get member ''chat_id'' (VStr [])),
      (''id'', dict_get member ''user_id'' (VStr [])),
      (''first_name'', dict_get member ''first_name'' (VStr [])),
      (''last_name'', dict_get member ''last_name'' (VStr [])),
      (''username'', VStr username),
      (''phone'', dict_get member ''phone'' (VStr [])),
      (''is_bot'', dict_get member ''is_bot'' (VBool False)),
      (''is_premium'', dict_get member ''is_premium'' (VBool False)),
      (''is_verified'', dict_get member ''is_verified'' (VBool False)),
      (''matched_nick'', VStr (str_lower username))]"

text \<open>
  The loop shared by \<^verbatim>\<open>_check_contacts\<close>, \<^verbatim>\<open>_check_chats\<close> and
  \<^verbatim>\<open>_check_chat_members\<close>; \<open>info\<close> builds the match. The test is
  \<^verbatim>\<open>username and username.lower() in nicknames_set\<close>: a true username that is
  not a string has no \<^verbatim>\<open>lower\<close>, the \<^verbatim>\<open>AttributeError\<close> is caught around the
  whole loop, and the matches found so far are returned.
\<close>

fun scan_records :: "(string \<Rightarrow> string) \<Rightarrow> (dict \<Rightarrow> string \<Rightarrow> dict) \<Rightarrow> string set \<Rightarrow> dict list \<Rightarrow> dict list \<Rightarrow> dict list" where
  "scan_records str_lower info nicknames_set [] matched = matched"
| "scan_records str_lower info nicknames_set (r # rs) matched =
     (case dict_get r ''username'' (VStr []) of
        VStr username \<Rightarrow>
          if username \<noteq> [] \<and> str_lower username \<in> nicknames_set
          then scan_records str_lower info nicknames_set rs (matched @ [info r username])
          else scan_records str_lower info nicknames_set rs matched
      | VInt i \<Rightarrow>
          if i \<noteq> 0 then matched else scan_records str_lower info nicknames_set rs matched
      | VBool b \<Rightarrow>
          if b then matched else scan_records str_lower info nicknames_set rs matched)"

text \<open>
  Without a session \<^verbatim>\<open>get_session_file_path\<close> raises inside the \<^verbatim>\<open>try\<close>; a
  rejected JSON file raises there too. Both are caught and nothing is matched.
\<close>

definition check_contacts :: "(string \<Rightarrow> string) \<Rightarrow> string set \<Rightarrow> world \<Rightarrow> dict list" where
  "check_contacts str_lower nicknames_set w =
     (if \<not> has_session w then []
      else case contacts_json w of
             Doc contacts \<Rightarrow> scan_records str_lower (contact_info str_lower) nicknames_set contacts []
           | Missing \<Rightarrow> []
           | Malformed \<Rightarrow> [])"

definition check_chats :: "(string \<Rightarrow> string) \<Rightarrow> string set \<Rightarrow> world \<Rightarrow> dict list" where
  "check_chats str_lower nicknames_set w =
     (if \<not> has_session w then []
      else case dialogs_json w of
             Doc dialogs \<Rightarrow> scan_records str_lower (dialog_info str_lower) nicknames_set dialogs []
           | Missing \<Rightarrow> []
           | Malformed \<Rightarrow> [])"

definition check_chat_members :: "(string \<Rightarrow> string) \<Rightarrow> string set \<Rightarrow> world \<Rightarrow> dict list" where
  "check_chat_members str_lower nicknames_set w =
     (if \<not> has_session w then []
      else case members_json w of
             Doc chat_members \<Rightarrow> scan_records str_lower (member_info str_lower) nicknames_set chat_members []
           | Missing \<Rightarrow> []
           | Malformed \<Rightarrow> [])"

text \<open>The per-source update of \<^verbatim>\<open>_save_matches\<close>; \<^verbatim>\<open>contact["source"]\<close> needs the key.\<close>

definition fill_missing :: "dict \<Rightarrow> error + dict" where
  "fill_missing contact =
     (case map_of contact ''source'' of
        None \<Rightarrow> Inl KeyError
      | Some src \<Rightarrow>
          if src = VStr ''contacts'' then
            Inr (dict_update contact
                  [(''last_message_date'', VStr []), (''unread_count'', VInt 0),
                   (''is_premium'', VBool False), (''is_verified'', VBool False),
                   (''is_contact'', VBool True)])
          else if src = VStr ''chats'' then
            Inr (dict_update contact
                  [(''is_premium'', VBool False), (''is_verified'', VBool False)])
          else if src = VStr ''chat_members'' then
            Inr (dict_update contact
                  [(''is_contact'', VBool False), (''last_message_date'', VStr []),
                   (''unread_count'', VInt 0)])
          else Inr contact)"

fun write_matches :: "dict list \<Rightarrow> dict list \<Rightarrow> csv_row list \<Rightarrow> (error + dict list) \<times> csv_row list" where
  "write_matches [] filled rows = (Inr filled, rows)"
| "write_matches (contact # rest) filled rows =
     (case fill_missing contact of
        Inl e \<Rightarrow> (Inl e, rows)
      | Inr contact' \<Rightarrow>
          (case dict_to_list matches_fieldnames contact' of
             Inl e \<Rightarrow> (Inl e, rows)
           | Inr row \<Rightarrow> write_matches rest (filled @ [contact']) (rows @ [row])))"

definition save_matches :: "dict list \<Rightarrow> world \<Rightarrow> (error + unit) \<times> world" where
  "save_matches matched_contacts w =
     (if \<not> has_session w then (Inl ValueError, w)
      else case write_matches matched_contacts [] [writeheader matches_fieldnames] of
             (Inl e, rows) \<Rightarrow> (Inl e, w\<lparr>matches_csv := Some rows\<rparr>)
           | (Inr filled, rows) \<Rightarrow>
               (Inr (), w\<lparr>matches_csv := Some rows, matches_json := Doc filled\<rparr>))"

definition cross_reference_nicknames :: "(string \<Rightarrow> string) \<Rightarrow> (string \<Rightarrow> string) \<Rightarrow> world \<Rightarrow> (error + nat) \<times> world" where
  "cross_reference_nicknames str_lower str_strip w =
     (let nicknames_set = load_nicknames_list str_lower str_strip w in
      if nicknames_set = {} then (Inr 0, w)
      else
        let matched_contacts =
              check_contacts str_lower nicknames_set w @ check_chats str_lower nicknames_set w @
              check_chat_members str_lower nicknames_set w
        in if matched_contacts \<noteq> [] then
             (case save_matches matched_contacts w of
                (Inl e, w') \<Rightarrow> (Inl e, w')
              | (Inr u, w') \<Rightarrow> (Inr (length matched_contacts), w'))
           else (Inr 0, w))"

section \<open>TelegramExporter: contacts and chats\<close>

text \<open>
  The remote client is a collaborator: what a call returns (or raises) is an
  argument of the pipeline, and every call is logged in \<^const>\<open>calls\<close>.

  \<^verbatim>\<open>if resume and kind in self.file_manager.progress\<close>, then
  \<^verbatim>\<open>progress[kind].get("completed", 0)\<close>: the stored position, if the run resumes.
\<close>

definition resume_from :: "string \<Rightarrow> bool \<Rightarrow> world \<Rightarrow> error + int option" where
  "resume_from kind resume w =
     (if \<not> resume then Inr None
      else case load_progress w of
             Inl e \<Rightarrow> Inl e
           | Inr progress \<Rightarrow>
               (case map_of progress kind of
                  None \<Rightarrow> Inr None
                | Some entry \<Rightarrow> Inr (Some (get_or (pe_completed entry) 0))))"

text \<open>
  \<^verbatim>\<open>for i, item in enumerate(items, completed)\<close>: every item is buffered, and
  progress is saved whenever \<^verbatim>\<open>(i + 1) % 10 == 0\<close>.
\<close>

fun buffer_items :: "string \<Rightarrow> int \<Rightarrow> int \<Rightarrow> dict list \<Rightarrow> dict list \<Rightarrow> world \<Rightarrow> (error + dict list) \<times> world" where
  "buffer_items kind total_n i [] item_list w = (Inr item_list, w)"
| "buffer_items kind total_n i (item # rest) item_list w =
     (if (i + 1) mod 10 = 0 then
        (case save_progress kind
                \<lparr>pe_timestamp = None, pe_completed = Some (i + 1), pe_total = Some total_n,
                 pe_finished = Some False, pe_processed_items = None\<rparr> w of
           (Inl e, w') \<Rightarrow> (Inl e, w')
         | (Inr u, w') \<Rightarrow> buffer_items kind total_n (i + 1) rest (item_list @ [item]) w')
      else buffer_items kind total_n (i + 1) rest (item_list @ [item]) w)"

definition export_contacts :: "(error + dict list) \<Rightarrow> bool \<Rightarrow> world \<Rightarrow> (error + nat) \<times> world" where
  "export_contacts get_contacts resume w0 =
     (let w = w0\<lparr>calls := calls w0 @ [GetContacts]\<rparr> in
      case get_contacts of
        Inl e \<Rightarrow> (Inl e, w)
      | Inr contacts \<Rightarrow>
          (let total_n = int (length contacts) in
           case resume_from ''contacts'' resume w of
             Inl e \<Rightarrow> (Inl e, w)
           | Inr position \<Rightarrow>
               (let completed = get_or position 0;
                    remaining =
                      (case position of None \<Rightarrow> contacts | Some c \<Rightarrow> py_slice_from contacts c)
                in case buffer_items ''contacts'' total_n completed remaining [] w of
                     (Inl e, w1) \<Rightarrow> (Inl e, w1)
                   | (Inr contact_list, w1) \<Rightarrow>
                       (case save_contacts_to_files contact_list w1 of
                          (Inl e, w2) \<Rightarrow> (Inl e, w2)
                        | (Inr n, w2) \<Rightarrow>
                            (case save_progress ''contacts''
                                    \<lparr>pe_timestamp = None, pe_completed = Some total_n,
                                     pe_total = Some total_n, pe_finished = Some True,
                                     pe_processed_items = None\<rparr> w2 of
                               (Inl e, w3) \<Rightarrow> (Inl e, w3)
                             | (Inr u, w3) \<Rightarrow> (Inr (length contacts), w3))))))"

definition export_chats :: "(error + dict list) \<Rightarrow> bool \<Rightarrow> world \<Rightarrow> (error + nat) \<times> world" where
  "export_chats get_chats resume w0 =
     (let w = w0\<lparr>calls := calls w0 @ [GetChats]\<rparr> in
      case get_chats of
        Inl e \<Rightarrow> (Inl e, w)
      | Inr chats \<Rightarrow>
          (let total_n = int (length chats) in
           case resume_from ''chats'' resume w of
             Inl e \<Rightarrow> (Inl e, w)
           | Inr position \<Rightarrow>
               (let completed = get_or position 0;
                    remaining =
                      (case position of None \<Rightarrow> chats | Some c \<Rightarrow> py_slice_from chats c)
                in case buffer_items ''chats'' total_n completed remaining [] w of
                     (Inl e, w1) \<Rightarrow> (Inl e, w1)
                   | (Inr chat_list, w1) \<Rightarrow>
                       (case save_chats_to_files chat_list w1 of
                          (Inl e, w2) \<Rightarrow> (Inl e, w2)
                        | (Inr n, w2) \<Rightarrow>
                            (case save_progress ''chats''
                                    \<lparr>pe_timestamp = None, pe_completed = Some total_n,
                                     pe_total = Some total_n, pe_finished = Some True,
                                     pe_processed_items = None\<rparr> w2 of
                               (Inl e, w3) \<Rightarrow> (Inl e, w3)
                             | (Inr u, w3) \<Rightarrow> (Inr (length chats), w3))))))"

section \<open>TelegramExporter: chat members\<close>

record chat_info =
  chat_id :: int
  chat_title :: string
  chat_type :: string

record members_state =
  processed_chat_ids :: "int list"
  completed_chats :: int
  total_members :: nat
  st_world :: world

text \<open>
  What \<^verbatim>\<open>export_chat_members\<close> starts from: the stored progress when resuming
  over an entry, and otherwise nothing processed; a run that does not resume
  removes both member files first.
\<close>

definition start_state :: "bool \<Rightarrow> world \<Rightarrow> error + members_state" where
  "start_state resume w =
     (if resume then
        (case load_progress w of
           Inl e \<Rightarrow> Inl e
         | Inr progress \<Rightarrow>
             (case map_of progress ''chat_members'' of
                Some progress_data \<Rightarrow>
                  Inr \<lparr>processed_chat_ids = get_or (pe_processed_items progress_data) [],
                       completed_chats = get_or (pe_completed progress_data) 0,
                       total_members = 0, st_world = w\<rparr>
              | None \<Rightarrow>
                  Inr \<lparr>processed_chat_ids = [], completed_chats = 0,
                       total_members = 0, st_world = w\<rparr>))
      else if \<not> has_session w then Inl ValueError
      else Inr \<lparr>processed_chat_ids = [], completed_chats = 0, total_members = 0,
                st_world = w\<lparr>members_csv := None, members_json := Missing\<rparr>\<rparr>)"

text \<open>
  One iteration of the loop. The \<^verbatim>\<open>except Exception\<close> branch marks the chat as
  processed again, whatever raised: the fetch, the writer, or the progress
  save that comes after the chat was already marked.
\<close>

definition mark_processed :: "chat_info \<Rightarrow> members_state \<Rightarrow> world \<Rightarrow> members_state" where
  "mark_processed chat st w =
     st\<lparr>processed_chat_ids := processed_chat_ids st @ [chat_id chat],
        completed_chats := completed_chats st + 1,
        st_world := w\<rparr>"

definition process_chat :: "(chat_info \<Rightarrow> error + dict list) \<Rightarrow> int \<Rightarrow> chat_info \<Rightarrow> members_state \<Rightarrow> members_state" where
  "process_chat get_chat_members_for_chat total_chats chat st =
     (if chat_id chat \<in> set (processed_chat_ids st) then st
      else
        let w1 = (st_world st)\<lparr>calls := calls (st_world st) @ [GetChatMembers (chat_id chat)]\<rparr>
        in case get_chat_members_for_chat chat of
             Inl e \<Rightarrow> mark_processed chat st w1
           | Inr chat_members \<Rightarrow>
               (case (if chat_members \<noteq> [] then
                        save_chat_members_to_files chat_members
                          (0 < completed_chats st \<or> 0 < length (processed_chat_ids st)) w1
                      else (Inr 0, w1)) of
                  (Inl e, w2) \<Rightarrow> mark_processed chat st w2
                | (Inr n, w2) \<Rightarrow>
                    (let st2 = (mark_processed chat st w2)
                                 \<lparr>total_members := total_members st + length chat_members\<rparr>
                     in case save_progress ''chat_members''
                               \<lparr>pe_timestamp = None,
                                pe_completed = Some (completed_chats st2),
                                pe_total = Some total_chats,
                                pe_finished = Some (total_chats \<le> completed_chats st2),
                                pe_processed_items = Some (processed_chat_ids st2)\<rparr> w2 of
                          (Inl e, w3) \<Rightarrow> mark_processed chat st2 w3
                        | (Inr u, w3) \<Rightarrow> st2\<lparr>st_world := w3\<rparr>)))"

fun process_chats :: "(chat_info \<Rightarrow> error + dict list) \<Rightarrow> int \<Rightarrow> chat_info list \<Rightarrow> members_state \<Rightarrow> members_state" where
  "process_chats get_chat_members_for_chat total_chats [] st = st"
| "process_chats get_chat_members_for_chat total_chats (chat # rest) st =
     process_chats get_chat_members_for_chat total_chats rest
       (process_chat get_chat_members_for_chat total_chats chat st)"

definition export_chat_members :: "(error + chat_info list) \<Rightarrow> (chat_info \<Rightarrow> error + dict list) \<Rightarrow> bool \<Rightarrow> world \<Rightarrow> (error + nat) \<times> world" where
  "export_chat_members get_all_group_chats get_chat_members_for_chat resume w0 =
     (let w = w0\<lparr>calls := calls w0 @ [GetAllGroupChats]\<rparr> in
      case get_all_group_chats of
        Inl e \<Rightarrow> (Inl e, w)
      | Inr all_chats \<Rightarrow>
          if all_chats = [] then (Inr 0, w)
          else
            (let total_chats = int (length all_chats) in
             case start_state resume w of
               Inl e \<Rightarrow> (Inl e, w)
             | Inr st0 \<Rightarrow>
                 (let st = process_chats get_chat_members_for_chat total_chats all_chats st0 in
                  case save_progress ''chat_members''
                          \<lparr>pe_timestamp = None,
                           pe_completed = Some (completed_chats st),
                           pe_total = Some total_chats,
                           pe_finished = Some True,
                           pe_processed_items = Some (processed_chat_ids st)\<rparr> (st_world st) of
                    (Inl e, w') \<Rightarrow> (Inl e, w')
                  | (Inr u, w') \<Rightarrow> (Inr (total_members st), w'))))"

section \<open>Vocabulary of the properties\<close>

text \<open>
  A record fits a dataset when all its keys are columns of that dataset; the
  row the CSV writer produces for it takes the columns in order, with the empty
  string for an absent key.
\<close>

definition conforms :: "string list \<Rightarrow> dict \<Rightarrow> bool" where
  "conforms fieldnames r = list_all (\<lambda>k. k \<in> set fieldnames) (map fst r)"

definition row_of :: "string list \<Rightarrow> dict \<Rightarrow> csv_row" where
  "row_of fieldnames r = map (\<lambda>key. dict_get r key (VStr [])) fieldnames"

text \<open>
  The username of an exported record is a string (the client wrapper writes
  \<^verbatim>\<open>username or ""\<close>); a record without the key counts as having none.
\<close>

definition has_str_username :: "dict \<Rightarrow> bool" where
  "has_str_username r =
     (case map_of r ''username'' of
        None \<Rightarrow> True
      | Some (VStr u) \<Rightarrow> True
      | Some (VInt i) \<Rightarrow> False
      | Some (VBool b) \<Rightarrow> False)"

definition username_of :: "dict \<Rightarrow> string" where
  "username_of r = (case map_of r ''username'' of Some (VStr u) \<Rightarrow> u | _ \<Rightarrow> [])"

text \<open>
  The matching rule in the spec's words: a non-empty handle whose lower-cased
  form, as \<^verbatim>\<open>str.lower\<close> gives it, is a target.
\<close>

definition is_match :: "(string \<Rightarrow> string) \<Rightarrow> string set \<Rightarrow> dict \<Rightarrow> bool" where
  "is_match str_lower nicknames_set r =
     (username_of r \<noteq> [] \<and> str_lower (username_of r) \<in> nicknames_set)"

definition from_contacts :: "dict \<Rightarrow> bool" where
  "from_contacts m = (map_of m ''source'' = Some (VStr ''contacts''))"

definition forced_contact_fields :: "dict \<Rightarrow> bool" where
  "forced_contact_fields m =
     (map_of m ''is_contact'' = Some (VBool True) \<and>
      map_of m ''is_premium'' = Some (VBool False) \<and>
      map_of m ''is_verified'' = Some (VBool False) \<and>
      map_of m ''last_message_date'' = Some (VStr []) \<and>
      map_of m ''unread_count'' = Some (VInt 0))"

text \<open>A match that \<^verbatim>\<open>_save_matches\<close> can fill and write; \<open>filled\<close> is what it writes.\<close>

definition match_ok :: "dict \<Rightarrow> bool" where
  "match_ok m =
     (case fill_missing m of
        Inl e \<Rightarrow> False
      | Inr m' \<Rightarrow> conforms matches_fieldnames m' \<and>
                  (if from_contacts m' then forced_contact_fields m' else True))"

definition filled :: "dict \<Rightarrow> dict" where
  "filled m = (case fill_missing m of Inl e \<Rightarrow> m | Inr m' \<Rightarrow> m')"

text \<open>
  The progress document as \<^const>\<open>load_progress\<close> sees it when it parses, a
  session whose progress store works, and the frame of a progress save.
\<close>

definition stored_progress :: "world \<Rightarrow> progress_doc" where
  "stored_progress w = (case progress_file w of Doc d \<Rightarrow> d | Missing \<Rightarrow> [] | Malformed \<Rightarrow> [])"

definition healthy :: "world \<Rightarrow> bool" where
  "healthy w = (has_session w \<and> progress_file w \<noteq> Malformed)"

definition progress_only :: "world \<Rightarrow> world \<Rightarrow> bool" where
  "progress_only w w' =
     (w' = w\<lparr>clock := clock w', progress_file := progress_file w',
             progress_layout := progress_layout w'\<rparr>)"

section \<open>Example sessions\<close>

text \<open>
  On ASCII text \<^verbatim>\<open>str.lower\<close> lowers the letters A to Z and \<^verbatim>\<open>str.strip\<close>
  removes the ASCII white space at both ends. The examples are ASCII, so they
  run with these two functions in the place of the methods.
\<close>

definition ascii_lower_char :: "char \<Rightarrow> char" where
  "ascii_lower_char c =
     (let n = (of_char c :: nat) in if 65 \<le> n \<and> n \<le> 90 then char_of (n + 32) else c)"

definition ascii_lower :: "string \<Rightarrow> string" where
  "ascii_lower s = map ascii_lower_char s"

definition ascii_is_space :: "char \<Rightarrow> bool" where
  "ascii_is_space c =
     (let n = (of_char c :: nat) in (9 \<le> n \<and> n \<le> 13) \<or> (28 \<le> n \<and> n \<le> 32))"

definition ascii_strip :: "string \<Rightarrow> string" where
  "ascii_strip s = rev (dropWhile ascii_is_space (rev (dropWhile ascii_is_space s)))"

text \<open>A clock whose readings print as seconds of one minute.\<close>

definition example_isoformat :: "nat \<Rightarrow> string" where
  "example_isoformat n =
     ''2026-11-04T12:00:'' @ (if n < 10 then ''0'' else []) @ str_of_nat n"

definition example_world :: world where
  "example_world =
     \<lparr>current_session = Some ''session_79991234567'', clock = 0, calls = [],
      progress_file = Missing, progress_layout = Indent2,
      contacts_csv = None, contacts_json = Missing,
      chats_csv = None, dialogs_json = Missing,
      members_csv = None, members_json = Missing,
      matches_csv = None, matches_json = Missing,
      nicknames_file = NoFile\<rparr>"

definition example_contact :: "int \<Rightarrow> string \<Rightarrow> dict" where
  "example_contact i username =
     [(''id'', VInt i), (''first_name'', VStr ''Ann''), (''last_name'', VStr []),
      (''username'', VStr username), (''phone'', VStr ''79991234567''),
      (''is_bot'', VBool False), (''is_contact'', VBool True)]"

definition example_member :: "int \<Rightarrow> dict" where
  "example_member i =
     [(''chat_id'', VInt i), (''chat_title'', VStr ''Group''), (''chat_type'', VStr ''group''),
      (''user_id'', VInt (100 + i)), (''first_name'', VStr ''Bob''), (''last_name'', VStr []),
      (''username'', VStr ''bob''), (''phone'', VStr []), (''is_bot'', VBool False),
      (''is_premium'', VBool True), (''is_verified'', VBool False)]"

definition example_entry :: "int \<Rightarrow> int \<Rightarrow> bool \<Rightarrow> progress_entry" where
  "example_entry c t f =
     \<lparr>pe_timestamp = None, pe_completed = Some c, pe_total = Some t, pe_finished = Some f,
      pe_processed_items = None\<rparr>"

text \<open>
  A contacts file whose only record carries a capitalised handle and values for is_contact, is_premium,
  is_verified, last_message_date and unread_count that differ from the ones
  the matcher forces; the targets file names the handle in another case.
\<close>

definition example_odd_contact :: dict where
  "example_odd_contact =
     [(''id'', VInt 7), (''username'', VStr ''Alice''), (''is_contact'', VBool False),
      (''is_premium'', VBool True), (''is_verified'', VBool True),
      (''last_message_date'', VStr ''2024-05-01''), (''unread_count'', VInt 9)]"

definition example_match_world :: world where
  "example_match_world =
     example_world\<lparr>contacts_json := Doc [example_odd_contact],
                   nicknames_file := Lines ['' ALICE \<newline>'', ''\<newline>'']\<rparr>"

text \<open>
  A session whose contacts export has finished: five contacts on file, progress
  5 of 5, finished. The source still lists the same five contacts.
\<close>

definition example_five_contacts :: "dict list" where
  "example_five_contacts =
     [example_contact 1 ''ann'', example_contact 2 ''ben'', example_contact 3 ''cat'',
      example_contact 4 ''dan'', example_contact 5 ''eve'']"

definition example_finished_world :: world where
  "example_finished_world =
     example_world\<lparr>progress_file := Doc [(''contacts'', example_entry 5 5 True)],
                   contacts_csv :=
                     Some (writeheader contacts_fieldnames #
                           map (row_of contacts_fieldnames) example_five_contacts),
                   contacts_json := Doc example_five_contacts\<rparr>"

text \<open>A session interrupted after two of the five contacts (or dialogs).\<close>

definition example_interrupted_world :: world where
  "example_interrupted_world =
     example_world\<lparr>progress_file :=
                     Doc [(''contacts'', example_entry 2 5 False), (''chats'', example_entry 2 5 False)]\<rparr>"

text \<open>
  For the chat-member pipeline: the members a fetch delivered (none when it
  raised), the members of all chats of a run in chat order, and the two member
  files that hold a given list of members (no file when the list is empty).
\<close>

definition ok_members :: "error + dict list \<Rightarrow> dict list" where
  "ok_members result = (case result of Inl e \<Rightarrow> [] | Inr ms \<Rightarrow> ms)"

definition fetched_ok :: "(chat_info \<Rightarrow> error + dict list) \<Rightarrow> chat_info list \<Rightarrow> dict list" where
  "fetched_ok fetch chats = concat (map (\<lambda>c. ok_members (fetch c)) chats)"

definition fetch_conforms :: "(chat_info \<Rightarrow> error + dict list) \<Rightarrow> chat_info \<Rightarrow> bool" where
  "fetch_conforms fetch c = list_all (conforms members_fieldnames) (ok_members (fetch c))"

definition members_csv_of :: "dict list \<Rightarrow> csv_file" where
  "members_csv_of ms =
     (if ms = [] then None
      else Some (writeheader members_fieldnames # map (row_of members_fieldnames) ms))"

definition members_json_of :: "dict list \<Rightarrow> dict list json_file" where
  "members_json_of ms = (if ms = [] then Missing else Doc ms)"

text \<open>The calls a run added to the log of the session it started from.\<close>

definition new_calls :: "world \<Rightarrow> world \<Rightarrow> call list" where
  "new_calls w w' = drop (length (calls w)) (calls w')"

text \<open>Three groups; fetching the members of the second one is refused.\<close>

definition example_chat :: "int \<Rightarrow> chat_info" where
  "example_chat i = \<lparr>chat_id = i, chat_title = ''Group'', chat_type = ''group''\<rparr>"

definition example_fetch :: "chat_info \<Rightarrow> error + dict list" where
  "example_fetch c = (if chat_id c = 2 then Inl RemoteError else Inr [example_member (chat_id c)])"

text \<open>
  A progress file written by hand on one line, holding a finished chats entry:
  \<^verbatim>\<open>{"chats": {"completed": 3, "total": 3, "finished": true}}\<close>.
\<close>

definition example_oneline_world :: world where
  "example_oneline_world =
     example_world\<lparr>progress_file := Doc [(''chats'', example_entry 3 3 True)],
                   progress_layout := OneLine\<rparr>"

section \<open>Properties of the progress store\<close>

text \<open>
  What \<^const>\<open>load_progress\<close> returns: the empty mapping when no session is
  set or the session has no progress file, the parsed document when the file
  parses, and the decode error of \<^verbatim>\<open>json.load\<close> for any other file.
\<close>

lemma load_progress_outcomes:
  "(\<not> has_session w \<longrightarrow> load_progress w = Inr []) \<and>
   (has_session w \<and> progress_file w = Missing \<longrightarrow> load_progress w = Inr []) \<and>
   (has_session w \<and> progress_file w = Doc d \<longrightarrow> load_progress w = Inr d) \<and>
   (has_session w \<and> progress_file w = Malformed \<longrightarrow> load_progress w = Inl JSONDecodeError)"
  by (simp add: load_progress_def)

text \<open>
  C2. The claim asks \<^const>\<open>load_progress\<close> to return the empty mapping for a
  progress file that does not parse. The code does not: on the example session
  with such a file it raises the decode error, where the other readers of
  local JSON files in the repository catch it and go on with an empty value.
\<close>

theorem load_progress_malformed_raises:
  "has_session (example_world\<lparr>progress_file := Malformed\<rparr>) \<and>
   load_progress (example_world\<lparr>progress_file := Malformed\<rparr>) = Inl JSONDecodeError \<and>
   load_progress (example_world\<lparr>progress_file := Malformed\<rparr>) \<noteq> Inr []"
  by (simp add: load_progress_def has_session_def example_world_def)

text \<open>
  C4, as the code has it. With a session set and a progress file that is
  absent or parses (so that loading gives a document \<open>d\<close>, empty when absent),
  \<^const>\<open>save_progress\<close> succeeds, and loading afterwards gives \<open>d\<close> with the
  entry of that kind replaced by the new one: that kind maps to the entry built
  from the data and the clock, every other kind to the value it had. The file
  itself is written anew, whole, in the layout of \<^verbatim>\<open>json.dump(..., indent=2)\<close>;
  the entries of the other kinds keep their values, not their bytes.
\<close>

theorem save_progress_read_modify_write:
  assumes "has_session w" and "load_progress w = Inr d"
  shows "\<exists>w'. save_progress kind data w = (Inr (), w') \<and>
           load_progress w' = Inr (AList.update kind (stamped_entry (clock w) data) d) \<and>
           stamped_entry (clock w) data =
             \<lparr>pe_timestamp = Some (clock w),
              pe_completed = Some (get_or (pe_completed data) 0),
              pe_total = Some (get_or (pe_total data) 0),
              pe_finished = Some (get_or (pe_finished data) False),
              pe_processed_items = Some (get_or (pe_processed_items data) [])\<rparr> \<and>
           map_of (AList.update kind (stamped_entry (clock w) data) d) kind
             = Some (stamped_entry (clock w) data) \<and>
           (\<forall>k. k \<noteq> kind \<longrightarrow>
              map_of (AList.update kind (stamped_entry (clock w) data) d) k = map_of d k) \<and>
           progress_text isoformat w' =
             Some (dump_progress isoformat Indent2
                     (AList.update kind (stamped_entry (clock w) data) d))"
  using assms
  by (simp add: save_progress_def load_progress_def has_session_def AList.update_conv'
      stamped_entry_def progress_text_def)

theorem save_progress_read_modify_write_witness:
  "has_session example_oneline_world \<and>
   load_progress example_oneline_world = Inr [(''chats'', example_entry 3 3 True)] \<and>
   (\<exists>w'. save_progress ''contacts'' (example_entry 50 100 False) example_oneline_world
          = (Inr (), w') \<and>
        load_progress w' =
          Inr [(''chats'', example_entry 3 3 True),
               (''contacts'', \<lparr>pe_timestamp = Some 0, pe_completed = Some 50, pe_total = Some 100,
                                pe_finished = Some False, pe_processed_items = Some []\<rparr>)])"
proof -
  let ?w = "example_oneline_world"
  have h: "has_session ?w"
    by (simp add: has_session_def example_oneline_world_def example_world_def)
  have l: "load_progress ?w = Inr [(''chats'', example_entry 3 3 True)]"
    by (simp add: load_progress_def has_session_def example_oneline_world_def example_world_def)
  obtain w' where w': "save_progress ''contacts'' (example_entry 50 100 False) ?w = (Inr (), w')"
    "load_progress w' =
       Inr (AList.update ''contacts'' (stamped_entry (clock ?w) (example_entry 50 100 False))
             [(''chats'', example_entry 3 3 True)])"
    using save_progress_read_modify_write [OF h l] by blast
  have u: "AList.update ''contacts'' (stamped_entry (clock ?w) (example_entry 50 100 False))
             [(''chats'', example_entry 3 3 True)] =
           [(''chats'', example_entry 3 3 True),
            (''contacts'', \<lparr>pe_timestamp = Some 0, pe_completed = Some 50, pe_total = Some 100,
                             pe_finished = Some False, pe_processed_items = Some []\<rparr>)]"
    by (simp add: stamped_entry_def example_entry_def get_or_def example_oneline_world_def
        example_world_def)
  show ?thesis using h l w' u by simp
qed

text \<open>
  The claim C4 as stated fails on the bytes. The one-line progress file parses
  and holds a chats entry. After a save for contacts the chats entry has the
  value it had, but the file was written anew with indent 2, and the text of
  the chats entry is no longer the text it was.
\<close>

theorem save_progress_bytes_counterexample:
  "has_session example_oneline_world \<and>
   load_progress example_oneline_world = Inr [(''chats'', example_entry 3 3 True)] \<and>
   progress_text example_isoformat example_oneline_world =
     Some ''{\"chats\": {\"completed\": 3, \"total\": 3, \"finished\": true}}'' \<and>
   dump_entry example_isoformat (progress_layout example_oneline_world) 1
       (example_entry 3 3 True) =
     ''{\"completed\": 3, \"total\": 3, \"finished\": true}'' \<and>
   fst (save_progress ''contacts'' (example_entry 50 100 False) example_oneline_world)
     = Inr () \<and>
   map_of (stored_progress
       (snd (save_progress ''contacts'' (example_entry 50 100 False) example_oneline_world)))
     ''chats'' = Some (example_entry 3 3 True) \<and>
   dump_entry example_isoformat
       (progress_layout
          (snd (save_progress ''contacts'' (example_entry 50 100 False) example_oneline_world)))
       1 (example_entry 3 3 True) =
     ''{\<newline>    \"completed\": 3,\<newline>    \"total\": 3,\<newline>    \"finished\": true\<newline>  }'' \<and>
   dump_entry example_isoformat (progress_layout example_oneline_world) 1
       (example_entry 3 3 True) \<noteq>
   dump_entry example_isoformat
       (progress_layout
          (snd (save_progress ''contacts'' (example_entry 50 100 False) example_oneline_world)))
       1 (example_entry 3 3 True)"
  by code_simp

section \<open>Properties of the record writers\<close>

lemma dict_to_list_conforms:
  "conforms fn r \<Longrightarrow> dict_to_list fn r = Inr (row_of fn r)"
  by (simp add: conforms_def dict_to_list_def row_of_def list_ex_iff list_all_iff)

lemma writerows_conforms:
  "list_all (conforms fn) rs \<Longrightarrow> writerows fn rs rows = (Inr (), rows @ map (row_of fn) rs)"
  by (induction rs arbitrary: rows) (simp_all add: dict_to_list_conforms)

lemma example_member_conforms: "conforms members_fieldnames (example_member i)"
  by (simp add: conforms_def members_fieldnames_def example_member_def)

text \<open>
  C5. The chat-member writer called with no records returns 0 and leaves the
  whole session, both member files included, as it was.
\<close>

theorem save_chat_members_empty_noop:
  "save_chat_members_to_files [] append_flag w = (Inr 0, w)"
  by (simp add: save_chat_members_to_files_def)

theorem save_chat_members_empty_noop_witness:
  "save_chat_members_to_files [] True (example_world\<lparr>members_json := Doc [example_member 1]\<rparr>)
     = (Inr 0, example_world\<lparr>members_json := Doc [example_member 1]\<rparr>)"
  using save_chat_members_empty_noop [of True "example_world\<lparr>members_json := Doc [example_member 1]\<rparr>"]
  by simp

text \<open>
  C6. Two appending calls, first with \<open>A\<close> and then with \<open>B\<close>, both non-empty
  lists of chat-member records (every key a column of the member file), on a
  session that has no member files yet: both calls succeed, the JSON file ends
  as \<open>A\<close> followed by \<open>B\<close>, and the CSV file as one header row, the rows of
  \<open>A\<close>, then the rows of \<open>B\<close>.
\<close>

theorem save_chat_members_append_twice:
  assumes "has_session w" and "members_csv w = None" and "members_json w = Missing"
    and "A \<noteq> []" and "B \<noteq> []"
    and "list_all (conforms members_fieldnames) A"
    and "list_all (conforms members_fieldnames) B"
  shows "\<exists>w1 w2. save_chat_members_to_files A True w = (Inr (length A), w1) \<and>
           save_chat_members_to_files B True w1 = (Inr (length B), w2) \<and>
           members_json w2 = Doc (A @ B) \<and>
           members_csv w2 =
             Some (writeheader members_fieldnames #
                   map (row_of members_fieldnames) A @ map (row_of members_fieldnames) B)"
  using assms
  by (simp add: save_chat_members_to_files_def writerows_conforms has_session_def)

theorem save_chat_members_append_twice_witness:
  "has_session example_world \<and> members_csv example_world = None \<and>
   members_json example_world = Missing \<and>
   list_all (conforms members_fieldnames) [example_member 1] \<and>
   list_all (conforms members_fieldnames) [example_member 2, example_member 3] \<and>
   (\<exists>w1 w2. save_chat_members_to_files [example_member 1] True example_world = (Inr 1, w1) \<and>
      save_chat_members_to_files [example_member 2, example_member 3] True w1 = (Inr 2, w2) \<and>
      members_json w2 = Doc [example_member 1, example_member 2, example_member 3] \<and>
      members_csv w2 =
        Some [writeheader members_fieldnames, row_of members_fieldnames (example_member 1),
              row_of members_fieldnames (example_member 2),
              row_of members_fieldnames (example_member 3)])"
proof -
  have h: "has_session example_world" by (simp add: has_session_def example_world_def)
  have c: "members_csv example_world = None" by (simp add: example_world_def)
  have j: "members_json example_world = Missing" by (simp add: example_world_def)
  have a: "list_all (conforms members_fieldnames) [example_member 1]"
    by (simp add: example_member_conforms)
  have b: "list_all (conforms members_fieldnames) [example_member 2, example_member 3]"
    by (simp add: example_member_conforms)
  show ?thesis
    using h c j a b
      save_chat_members_append_twice [OF h c j _ _ a b]
    by (simp add: numeral_2_eq_2)
qed

section \<open>Properties of the nickname cross-reference\<close>

lemma scan_records_str:
  "list_all has_str_username rs \<Longrightarrow>
   scan_records lw info nicks rs matched =
     matched @ map (\<lambda>r. info r (username_of r)) (filter (is_match lw nicks) rs)"
proof (induction rs arbitrary: matched)
  case Nil
  then show ?case by simp
next
  case (Cons r rs)
  then have r: "has_str_username r" and rs: "list_all has_str_username rs" by simp_all
  show ?case
  proof (cases "map_of r ''username''")
    case None
    then show ?thesis using Cons.IH [OF rs]
      by (simp add: dict_get_def username_of_def is_match_def)
  next
    case (Some v)
    then obtain u where "v = VStr u" using r
      by (cases v) (simp_all add: has_str_username_def)
    then show ?thesis using Some Cons.IH [OF rs]
      by (simp add: dict_get_def username_of_def is_match_def)
  qed
qed

text \<open>
  C7. In each of the three datasets, read from a session's JSON file whose
  records carry string usernames, the matcher emits one match per record whose
  username is non-empty and whose lower-cased username is a member of the
  target set, in the order of the file, and none for any other record: the
  result is the matching records, each turned into its match. Lower-casing
  is \<^verbatim>\<open>str.lower\<close> itself, whatever it computes; the comparison is equality
  of whole strings, so a longer handle such as alice2 does not match alice.
\<close>

theorem nickname_match_exact:
  "(has_session w \<and> contacts_json w = Doc contacts \<and> list_all has_str_username contacts \<longrightarrow>
      check_contacts str_lower nicks w =
        map (\<lambda>r. contact_info str_lower r (username_of r))
            (filter (is_match str_lower nicks) contacts)) \<and>
   (has_session w \<and> dialogs_json w = Doc dialogs \<and> list_all has_str_username dialogs \<longrightarrow>
      check_chats str_lower nicks w =
        map (\<lambda>r. dialog_info str_lower r (username_of r))
            (filter (is_match str_lower nicks) dialogs)) \<and>
   (has_session w \<and> members_json w = Doc members \<and> list_all has_str_username members \<longrightarrow>
      check_chat_members str_lower nicks w =
        map (\<lambda>r. member_info str_lower r (username_of r))
            (filter (is_match str_lower nicks) members))"
  by (simp add: check_contacts_def check_chats_def check_chat_members_def scan_records_str)

lemma lower_Alice: "ascii_lower ''Alice'' = ''alice''"
  by code_simp

lemma lower_alice2: "ascii_lower ''alice2'' = ''alice2''"
  by code_simp

theorem nickname_match_exact_witness:
  "has_session (example_world\<lparr>contacts_json :=
       Doc [example_contact 1 ''Alice'', example_contact 2 ''alice2'', example_contact 3 []]\<rparr>) \<and>
   list_all has_str_username
     [example_contact 1 ''Alice'', example_contact 2 ''alice2'', example_contact 3 []] \<and>
   is_match ascii_lower {''alice''} (example_contact 1 ''Alice'') \<and>
   \<not> is_match ascii_lower {''alice''} (example_contact 2 ''alice2'') \<and>
   \<not> is_match ascii_lower {''alice''} (example_contact 3 []) \<and>
   check_contacts ascii_lower {''alice''} (example_world\<lparr>contacts_json :=
       Doc [example_contact 1 ''Alice'', example_contact 2 ''alice2'', example_contact 3 []]\<rparr>)
     = [contact_info ascii_lower (example_contact 1 ''Alice'') ''Alice'']"
proof -
  let ?cs = "[example_contact 1 ''Alice'', example_contact 2 ''alice2'', example_contact 3 []]"
  let ?w = "example_world\<lparr>contacts_json := Doc ?cs\<rparr>"
  have h: "has_session ?w" by (simp add: has_session_def example_world_def)
  have s: "list_all has_str_username ?cs"
    by (simp add: has_str_username_def example_contact_def)
  have u: "username_of (example_contact 1 ''Alice'') = ''Alice''"
     "username_of (example_contact 2 ''alice2'') = ''alice2''"
     "username_of (example_contact 3 []) = []"
    by (simp_all add: username_of_def example_contact_def)
  show ?thesis
    using h s nickname_match_exact [of ?w ?cs ascii_lower "{''alice''}" "[]" "[]"] u
    by (simp add: is_match_def lower_Alice lower_alice2)
qed

lemma contact_info_ok: "match_ok (contact_info lw r u)"
  by (simp add: match_ok_def contact_info_def fill_missing_def dict_update_def conforms_def
      matches_fieldnames_def from_contacts_def forced_contact_fields_def)

lemma dialog_info_ok: "match_ok (dialog_info lw r u)"
  by (simp add: match_ok_def dialog_info_def fill_missing_def dict_update_def conforms_def
      matches_fieldnames_def from_contacts_def forced_contact_fields_def)

lemma member_info_ok: "match_ok (member_info lw r u)"
  by (simp add: match_ok_def member_info_def fill_missing_def dict_update_def conforms_def
      matches_fieldnames_def from_contacts_def forced_contact_fields_def)

lemma scan_records_ok:
  "(\<And>r u. match_ok (info r u)) \<Longrightarrow> list_all match_ok matched \<Longrightarrow>
   list_all match_ok (scan_records lw info nicks rs matched)"
  by (induction rs arbitrary: matched) (auto split: val.splits)

lemma check_all_ok:
  "list_all match_ok (check_contacts lw n w @ check_chats lw n w @ check_chat_members lw n w)"
  by (simp add: check_contacts_def check_chats_def check_chat_members_def
      scan_records_ok contact_info_ok dialog_info_ok member_info_ok split: json_file.splits)

lemma write_matches_ok:
  "list_all match_ok ms \<Longrightarrow>
   write_matches ms done rows =
     (Inr (done @ map filled ms), rows @ map (\<lambda>m. row_of matches_fieldnames (filled m)) ms)"
proof (induction ms arbitrary: "done" rows)
  case Nil
  then show ?case by simp
next
  case (Cons m ms)
  then obtain m' where m': "fill_missing m = Inr m'" "conforms matches_fieldnames m'"
    by (auto simp add: match_ok_def split: sum.splits)
  then have "filled m = m'" by (simp add: filled_def)
  with m' Cons show ?case by (simp add: dict_to_list_conforms)
qed

lemma filled_forced:
  "match_ok m \<Longrightarrow> from_contacts (filled m) \<Longrightarrow> forced_contact_fields (filled m)"
  by (auto simp add: match_ok_def filled_def split: sum.splits if_splits)

lemma save_matches_ok:
  "has_session w \<Longrightarrow> list_all match_ok ms \<Longrightarrow>
   save_matches ms w =
     (Inr (), w\<lparr>matches_csv :=
                   Some (writeheader matches_fieldnames #
                         map (\<lambda>m. row_of matches_fieldnames (filled m)) ms),
                matches_json := Doc (map filled ms)\<rparr>)"
  by (simp add: save_matches_def write_matches_ok)

lemma matched_has_session:
  "check_contacts lw n w @ check_chats lw n w @ check_chat_members lw n w \<noteq> []
   \<Longrightarrow> has_session w"
  by (auto simp add: check_contacts_def check_chats_def check_chat_members_def split: if_splits)

text \<open>
  C8. The cross-reference never raises. Whenever it reports matches it has
  written them: the JSON matches file holds that many records, the CSV matches
  file holds the header and the row of each record in the same order, and every
  written record whose source is "contacts" has is_contact true, is_premium
  false, is_verified false, last_message_date empty and unread_count 0. This
  holds for every session state, so for every content of the contacts file.
\<close>

theorem contacts_match_forced_fields:
  "\<exists>n. fst (cross_reference_nicknames str_lower str_strip w) = Inr n \<and>
     (0 < n \<longrightarrow>
       (\<exists>ms. matches_json (snd (cross_reference_nicknames str_lower str_strip w)) = Doc ms \<and>
             length ms = n \<and>
             matches_csv (snd (cross_reference_nicknames str_lower str_strip w)) =
               Some (writeheader matches_fieldnames # map (row_of matches_fieldnames) ms) \<and>
             list_all (\<lambda>m. from_contacts m \<longrightarrow> forced_contact_fields m) ms))"
proof -
  let ?n = "load_nicknames_list str_lower str_strip w"
  let ?ms = "check_contacts str_lower ?n w @ check_chats str_lower ?n w @
             check_chat_members str_lower ?n w"
  show ?thesis
  proof (cases "?n = {} \<or> ?ms = []")
    case True
    then have "cross_reference_nicknames str_lower str_strip w = (Inr 0, w)"
      by (auto simp add: cross_reference_nicknames_def Let_def)
    then show ?thesis by simp
  next
    case False
    then have ne: "?ms \<noteq> []" and nn: "?n \<noteq> {}" by simp_all
    have ok: "list_all match_ok ?ms" by (rule check_all_ok)
    have ses: "has_session w" using ne by (rule matched_has_session)
    have run: "cross_reference_nicknames str_lower str_strip w =
      (Inr (length ?ms), w\<lparr>matches_csv :=
                   Some (writeheader matches_fieldnames #
                         map (\<lambda>m. row_of matches_fieldnames (filled m)) ?ms),
                matches_json := Doc (map filled ?ms)\<rparr>)"
      using ne nn save_matches_ok [OF ses ok]
      by (simp add: cross_reference_nicknames_def Let_def)
    have forced: "list_all (\<lambda>m. from_contacts m \<longrightarrow> forced_contact_fields m) (map filled ?ms)"
      using ok filled_forced by (auto simp add: list_all_iff)
    show ?thesis using run forced by (simp add: comp_def)
  qed
qed

lemma example_match_count: "fst (cross_reference_nicknames ascii_lower ascii_strip example_match_world) = Inr 1"
  by code_simp

lemma example_match_source:
  "matches_json (snd (cross_reference_nicknames ascii_lower ascii_strip example_match_world)) =
     Doc [filled (contact_info ascii_lower example_odd_contact ''Alice'')]"
  by code_simp

lemma example_match_from_contacts:
  "from_contacts (filled (contact_info ascii_lower example_odd_contact ''Alice''))"
  by code_simp

theorem contacts_match_forced_fields_witness:
  "fst (cross_reference_nicknames ascii_lower ascii_strip example_match_world) = Inr 1 \<and>
   matches_json (snd (cross_reference_nicknames ascii_lower ascii_strip example_match_world)) =
     Doc [filled (contact_info ascii_lower example_odd_contact ''Alice'')] \<and>
   from_contacts (filled (contact_info ascii_lower example_odd_contact ''Alice'')) \<and>
   forced_contact_fields (filled (contact_info ascii_lower example_odd_contact ''Alice''))"
  using contacts_match_forced_fields [of ascii_lower ascii_strip example_match_world]
    example_match_count example_match_source example_match_from_contacts
  by auto

text \<open>
  C10. When the targets file is missing, unreadable or has no non-blank line,
  and when the three scans together match nothing, the cross-reference returns
  0 and the session is exactly as before; in fact whenever it returns 0 no file
  has changed, so matches files of an earlier run stay as they were.
\<close>

theorem cross_reference_zero_untouched:
  "(nicknames_file w = NoFile \<or> nicknames_file w = Unreadable \<or> nicknames_file w = Lines []
      \<longrightarrow> cross_reference_nicknames str_lower str_strip w = (Inr 0, w)) \<and>
   (load_nicknames_list str_lower str_strip w = {} \<longrightarrow> cross_reference_nicknames str_lower str_strip w = (Inr 0, w)) \<and>
   (check_contacts str_lower (load_nicknames_list str_lower str_strip w) w @
    check_chats str_lower (load_nicknames_list str_lower str_strip w) w @
    check_chat_members str_lower (load_nicknames_list str_lower str_strip w) w = [] \<longrightarrow>
      cross_reference_nicknames str_lower str_strip w = (Inr 0, w)) \<and>
   (fst (cross_reference_nicknames str_lower str_strip w) = Inr 0 \<longrightarrow> snd (cross_reference_nicknames str_lower str_strip w) = w)"
  by (auto simp add: cross_reference_nicknames_def load_nicknames_list_def Let_def
      split: prod.splits sum.splits)

theorem cross_reference_zero_untouched_witness:
  "nicknames_file (example_world\<lparr>matches_json := Doc [example_contact 1 ''old'']\<rparr>) = NoFile \<and>
   load_nicknames_list ascii_lower ascii_strip (example_world\<lparr>matches_json := Doc [example_contact 1 ''old'']\<rparr>) = {} \<and>
   cross_reference_nicknames ascii_lower ascii_strip (example_world\<lparr>matches_json := Doc [example_contact 1 ''old'']\<rparr>)
     = (Inr 0, example_world\<lparr>matches_json := Doc [example_contact 1 ''old'']\<rparr>) \<and>
   matches_json (snd (cross_reference_nicknames ascii_lower ascii_strip
       (example_world\<lparr>matches_json := Doc [example_contact 1 ''old'']\<rparr>)))
     = Doc [example_contact 1 ''old'']"
  using cross_reference_zero_untouched
      [where w = "example_world\<lparr>matches_json := Doc [example_contact 1 ''old'']\<rparr>"
         and str_lower = ascii_lower and str_strip = ascii_strip]
  by (simp add: load_nicknames_list_def example_world_def)

section \<open>Properties of the contacts and chats pipelines\<close>

lemma progress_only_refl: "progress_only w w"
  by (simp add: progress_only_def)

lemma progress_only_trans:
  assumes "progress_only w w1" and "progress_only w1 w2"
  shows "progress_only w w2"
proof -
  have a: "w1 = w\<lparr>clock := clock w1, progress_file := progress_file w1,
                   progress_layout := progress_layout w1\<rparr>"
    using assms(1) by (simp add: progress_only_def)
  have b: "w2 = w1\<lparr>clock := clock w2, progress_file := progress_file w2,
                    progress_layout := progress_layout w2\<rparr>"
    using assms(2) by (simp add: progress_only_def)
  have "w2 = (w\<lparr>clock := clock w1, progress_file := progress_file w1,
                   progress_layout := progress_layout w1\<rparr>)
               \<lparr>clock := clock w2, progress_file := progress_file w2,
                progress_layout := progress_layout w2\<rparr>"
    using a b by simp
  then show ?thesis by (simp add: progress_only_def)
qed

lemma progress_only_fields:
  assumes "progress_only w w'"
  shows "current_session w' = current_session w \<and> calls w' = calls w \<and>
         contacts_csv w' = contacts_csv w \<and> contacts_json w' = contacts_json w \<and>
         chats_csv w' = chats_csv w \<and> dialogs_json w' = dialogs_json w \<and>
         members_csv w' = members_csv w \<and> members_json w' = members_json w \<and>
         matches_csv w' = matches_csv w \<and> matches_json w' = matches_json w \<and>
         nicknames_file w' = nicknames_file w"
proof -
  have eq: "w' = w\<lparr>clock := clock w', progress_file := progress_file w',
                   progress_layout := progress_layout w'\<rparr>"
    using assms by (simp add: progress_only_def)
  show ?thesis
    using arg_cong [OF eq, of current_session] arg_cong [OF eq, of calls]
      arg_cong [OF eq, of contacts_csv] arg_cong [OF eq, of contacts_json]
      arg_cong [OF eq, of chats_csv] arg_cong [OF eq, of dialogs_json]
      arg_cong [OF eq, of members_csv] arg_cong [OF eq, of members_json]
      arg_cong [OF eq, of matches_csv] arg_cong [OF eq, of matches_json]
      arg_cong [OF eq, of nicknames_file]
    by simp
qed

lemma healthy_load: "healthy w \<Longrightarrow> load_progress w = Inr (stored_progress w)"
  by (cases "progress_file w") (simp_all add: healthy_def load_progress_def stored_progress_def)

lemma save_progress_healthy:
  assumes "healthy w"
  shows "\<exists>w'. save_progress kind data w = (Inr (), w') \<and> healthy w' \<and> progress_only w w' \<and>
           stored_progress w' = AList.update kind (stamped_entry (clock w) data) (stored_progress w)"
  using assms healthy_load [OF assms]
  by (simp add: save_progress_def healthy_def has_session_def progress_only_def stored_progress_def)

lemma buffer_items_healthy:
  "healthy w \<Longrightarrow>
   \<exists>w'. buffer_items kind t i xs acc w = (Inr (acc @ xs), w') \<and> healthy w' \<and> progress_only w w'"
proof (induction xs arbitrary: i acc w)
  case Nil
  then show ?case by (simp add: progress_only_refl)
next
  case (Cons x xs)
  show ?case
  proof (cases "(i + 1) mod 10 = 0")
    case False
    then show ?thesis using Cons.IH [OF Cons.prems, of "i + 1" "acc @ [x]"] by simp
  next
    case True
    obtain w1 where w1: "save_progress kind
        \<lparr>pe_timestamp = None, pe_completed = Some (i + 1), pe_total = Some t,
         pe_finished = Some False, pe_processed_items = None\<rparr> w = (Inr (), w1)"
        "healthy w1" "progress_only w w1"
      using save_progress_healthy [OF Cons.prems] by blast
    obtain w2 where w2: "buffer_items kind t (i + 1) xs (acc @ [x]) w1 = (Inr ((acc @ [x]) @ xs), w2)"
        "healthy w2" "progress_only w1 w2"
      using Cons.IH [OF w1(2)] by blast
    show ?thesis using True w1 w2 progress_only_trans [OF w1(3) w2(3)] by simp
  qed
qed

text \<open>
  A resumed contacts run over a stored entry, on a session whose progress store
  works: one fetch, the items from the stored position on are buffered and
  written by the full-replace writer, and the final progress is stamped.
\<close>

lemma export_contacts_resumed:
  assumes h: "healthy w" and e: "map_of (stored_progress w) ''contacts'' = Some entry"
    and r: "rest = py_slice_from items (get_or (pe_completed entry) 0)"
    and c: "list_all (conforms contacts_fieldnames) rest"
  shows "\<exists>w'. export_contacts (Inr items) True w = (Inr (length items), w') \<and>
           calls w' = calls w @ [GetContacts] \<and>
           contacts_json w' = Doc rest \<and>
           contacts_csv w' =
             Some (writeheader contacts_fieldnames # map (row_of contacts_fieldnames) rest) \<and>
           (\<exists>t. map_of (stored_progress w') ''contacts'' =
                  Some \<lparr>pe_timestamp = Some t, pe_completed = Some (int (length items)),
                        pe_total = Some (int (length items)), pe_finished = Some True,
                        pe_processed_items = Some []\<rparr>)"
proof -
  let ?w = "w\<lparr>calls := calls w @ [GetContacts]\<rparr>"
  let ?n = "int (length items)"
  have h0: "healthy ?w" using h by (simp add: healthy_def has_session_def)
  have s0: "stored_progress ?w = stored_progress w" by (simp add: stored_progress_def)
  have res: "resume_from ''contacts'' True ?w = Inr (Some (get_or (pe_completed entry) 0))"
    using healthy_load [OF h0] s0 e by (simp add: resume_from_def)
  obtain w1 where w1: "buffer_items ''contacts'' ?n (get_or (pe_completed entry) 0) rest [] ?w
        = (Inr ([] @ rest), w1)" "healthy w1" "progress_only ?w w1"
    using buffer_items_healthy [OF h0] by blast
  let ?w2 = "w1\<lparr>contacts_csv :=
                   Some (writeheader contacts_fieldnames # map (row_of contacts_fieldnames) rest),
                 contacts_json := Doc rest\<rparr>"
  have sv: "save_contacts_to_files rest w1 = (Inr (length rest), ?w2)"
    using w1(2) c by (simp add: save_contacts_to_files_def healthy_def writerows_conforms)
  have h2: "healthy ?w2" using w1(2) by (simp add: healthy_def has_session_def)
  obtain w3 where w3: "save_progress ''contacts''
        \<lparr>pe_timestamp = None, pe_completed = Some ?n, pe_total = Some ?n,
         pe_finished = Some True, pe_processed_items = None\<rparr> ?w2 = (Inr (), w3)"
      "progress_only ?w2 w3"
      "stored_progress w3 = AList.update ''contacts'' (stamped_entry (clock ?w2)
          \<lparr>pe_timestamp = None, pe_completed = Some ?n, pe_total = Some ?n,
           pe_finished = Some True, pe_processed_items = None\<rparr>) (stored_progress ?w2)"
    using save_progress_healthy [OF h2] by blast
  have run: "export_contacts (Inr items) True w = (Inr (length items), w3)"
    using res w1(1) sv w3(1) r by (simp add: export_contacts_def Let_def get_or_def)
  have f1: "calls w3 = calls w @ [GetContacts]"
    using progress_only_fields [OF w3(2)] progress_only_fields [OF w1(3)] by simp
  have f2: "contacts_json w3 = Doc rest"
    using progress_only_fields [OF w3(2)] by simp
  have f3: "contacts_csv w3 =
      Some (writeheader contacts_fieldnames # map (row_of contacts_fieldnames) rest)"
    using progress_only_fields [OF w3(2)] by simp
  have f4: "map_of (stored_progress w3) ''contacts'' =
      Some \<lparr>pe_timestamp = Some (clock ?w2), pe_completed = Some ?n,
            pe_total = Some ?n, pe_finished = Some True, pe_processed_items = Some []\<rparr>"
    using w3(3) by (simp add: AList.update_conv' stamped_entry_def get_or_def)
  show ?thesis using run f1 f2 f3 f4 by blast
qed

lemma export_chats_resumed:
  assumes h: "healthy w" and e: "map_of (stored_progress w) ''chats'' = Some entry"
    and r: "rest = py_slice_from items (get_or (pe_completed entry) 0)"
    and c: "list_all (conforms chats_fieldnames) rest"
  shows "\<exists>w'. export_chats (Inr items) True w = (Inr (length items), w') \<and>
           calls w' = calls w @ [GetChats] \<and>
           dialogs_json w' = Doc rest \<and>
           chats_csv w' =
             Some (writeheader chats_fieldnames # map (row_of chats_fieldnames) rest)"
proof -
  let ?w = "w\<lparr>calls := calls w @ [GetChats]\<rparr>"
  let ?n = "int (length items)"
  have h0: "healthy ?w" using h by (simp add: healthy_def has_session_def)
  have s0: "stored_progress ?w = stored_progress w" by (simp add: stored_progress_def)
  have res: "resume_from ''chats'' True ?w = Inr (Some (get_or (pe_completed entry) 0))"
    using healthy_load [OF h0] s0 e by (simp add: resume_from_def)
  obtain w1 where w1: "buffer_items ''chats'' ?n (get_or (pe_completed entry) 0) rest [] ?w
        = (Inr ([] @ rest), w1)" "healthy w1" "progress_only ?w w1"
    using buffer_items_healthy [OF h0] by blast
  let ?w2 = "w1\<lparr>chats_csv :=
                   Some (writeheader chats_fieldnames # map (row_of chats_fieldnames) rest),
                 dialogs_json := Doc rest\<rparr>"
  have sv: "save_chats_to_files rest w1 = (Inr (length rest), ?w2)"
    using w1(2) c by (simp add: save_chats_to_files_def healthy_def writerows_conforms)
  have h2: "healthy ?w2" using w1(2) by (simp add: healthy_def has_session_def)
  obtain w3 where w3: "save_progress ''chats''
        \<lparr>pe_timestamp = None, pe_completed = Some ?n, pe_total = Some ?n,
         pe_finished = Some True, pe_processed_items = None\<rparr> ?w2 = (Inr (), w3)"
      "progress_only ?w2 w3"
    using save_progress_healthy [OF h2] by blast
  have run: "export_chats (Inr items) True w = (Inr (length items), w3)"
    using res w1(1) sv w3(1) r by (simp add: export_chats_def Let_def get_or_def)
  have f1: "calls w3 = calls w @ [GetChats]"
    using progress_only_fields [OF w3(2)] progress_only_fields [OF w1(3)] by simp
  have f2: "dialogs_json w3 = Doc rest"
    using progress_only_fields [OF w3(2)] by simp
  have f3: "chats_csv w3 =
      Some (writeheader chats_fieldnames # map (row_of chats_fieldnames) rest)"
    using progress_only_fields [OF w3(2)] by simp
  show ?thesis using run f1 f2 f3 by blast
qed

lemma healthy_Doc: "has_session w \<Longrightarrow> progress_file w = Doc p \<Longrightarrow> healthy w \<and> stored_progress w = p"
  by (simp add: healthy_def stored_progress_def)

text \<open>
  C3. A resumed contacts export over a stored position \<open>k > 0\<close>, on a session
  with a parseable progress file and a source that returns contact records:
  the run succeeds and afterwards the contacts JSON file is exactly the fetched
  list without its first \<open>k\<close> items, and the CSV file is the header followed by
  the rows of that tail, so the first \<open>k\<close> items are in neither file. The same
  holds for the chats export and its two files.
\<close>

theorem resumed_export_writes_tail:
  "(has_session w \<and> progress_file w = Doc p \<and> map_of p ''contacts'' = Some entry \<and>
    pe_completed entry = Some k \<and> 0 < k \<and> list_all (conforms contacts_fieldnames) items \<longrightarrow>
      (\<exists>w'. export_contacts (Inr items) True w = (Inr (length items), w') \<and>
            contacts_json w' = Doc (drop (nat k) items) \<and>
            contacts_csv w' =
              Some (writeheader contacts_fieldnames #
                    map (row_of contacts_fieldnames) (drop (nat k) items)))) \<and>
   (has_session w \<and> progress_file w = Doc p \<and> map_of p ''chats'' = Some entry \<and>
    pe_completed entry = Some k \<and> 0 < k \<and> list_all (conforms chats_fieldnames) items \<longrightarrow>
      (\<exists>w'. export_chats (Inr items) True w = (Inr (length items), w') \<and>
            dialogs_json w' = Doc (drop (nat k) items) \<and>
            chats_csv w' =
              Some (writeheader chats_fieldnames #
                    map (row_of chats_fieldnames) (drop (nat k) items))))"
proof (intro conjI impI)
  assume a: "has_session w \<and> progress_file w = Doc p \<and> map_of p ''contacts'' = Some entry \<and>
    pe_completed entry = Some k \<and> 0 < k \<and> list_all (conforms contacts_fieldnames) items"
  then have h: "healthy w" and s: "map_of (stored_progress w) ''contacts'' = Some entry"
    using healthy_Doc [of w p] by simp_all
  have r: "drop (nat k) items = py_slice_from items (get_or (pe_completed entry) 0)"
    using a by (simp add: py_slice_from_def get_or_def)
  have c: "list_all (conforms contacts_fieldnames) (drop (nat k) items)"
    using a by (auto simp add: list_all_iff dest: in_set_dropD)
  show "\<exists>w'. export_contacts (Inr items) True w = (Inr (length items), w') \<and>
            contacts_json w' = Doc (drop (nat k) items) \<and>
            contacts_csv w' =
              Some (writeheader contacts_fieldnames #
                    map (row_of contacts_fieldnames) (drop (nat k) items))"
    using export_contacts_resumed [OF h s r c] by blast
next
  assume a: "has_session w \<and> progress_file w = Doc p \<and> map_of p ''chats'' = Some entry \<and>
    pe_completed entry = Some k \<and> 0 < k \<and> list_all (conforms chats_fieldnames) items"
  then have h: "healthy w" and s: "map_of (stored_progress w) ''chats'' = Some entry"
    using healthy_Doc [of w p] by simp_all
  have r: "drop (nat k) items = py_slice_from items (get_or (pe_completed entry) 0)"
    using a by (simp add: py_slice_from_def get_or_def)
  have c: "list_all (conforms chats_fieldnames) (drop (nat k) items)"
    using a by (auto simp add: list_all_iff dest: in_set_dropD)
  show "\<exists>w'. export_chats (Inr items) True w = (Inr (length items), w') \<and>
            dialogs_json w' = Doc (drop (nat k) items) \<and>
            chats_csv w' =
              Some (writeheader chats_fieldnames #
                    map (row_of chats_fieldnames) (drop (nat k) items))"
    using export_chats_resumed [OF h s r c] by blast
qed

lemma example_contact_conforms: "conforms contacts_fieldnames (example_contact i u)"
  by (simp add: conforms_def contacts_fieldnames_def example_contact_def)

lemma example_five_conform: "list_all (conforms contacts_fieldnames) example_five_contacts"
  by (simp add: example_five_contacts_def example_contact_conforms)

theorem resumed_export_writes_tail_witness:
  "has_session example_interrupted_world \<and>
   map_of [(''contacts'', example_entry 2 5 False), (''chats'', example_entry 2 5 False)] ''contacts''
     = Some (example_entry 2 5 False) \<and>
   pe_completed (example_entry 2 5 False) = Some 2 \<and>
   list_all (conforms contacts_fieldnames) example_five_contacts \<and>
   (\<exists>w'. export_contacts (Inr example_five_contacts) True example_interrupted_world = (Inr 5, w') \<and>
      contacts_json w' =
        Doc [example_contact 3 ''cat'', example_contact 4 ''dan'', example_contact 5 ''eve''])"
proof -
  let ?p = "[(''contacts'', example_entry 2 5 False), (''chats'', example_entry 2 5 False)]"
  have h: "has_session example_interrupted_world"
    by (simp add: example_interrupted_world_def example_world_def has_session_def)
  have f: "progress_file example_interrupted_world = Doc ?p"
    by (simp add: example_interrupted_world_def)
  have m: "map_of ?p ''contacts'' = Some (example_entry 2 5 False)" by simp
  have k: "pe_completed (example_entry 2 5 False) = Some 2" by (simp add: example_entry_def)
  have d: "drop (nat 2) example_five_contacts =
      [example_contact 3 ''cat'', example_contact 4 ''dan'', example_contact 5 ''eve'']"
    by (simp add: example_five_contacts_def)
  have l: "length example_five_contacts = 5" by (simp add: example_five_contacts_def)
  show ?thesis
    using h m k example_five_conform d l
      resumed_export_writes_tail [of example_interrupted_world ?p "example_entry 2 5 False" 2
        example_five_contacts]
    by (auto simp add: f)
qed

text \<open>
  C1, as the code has it. \<^const>\<open>export_contacts\<close> never looks at the stored
  \<open>finished\<close> flag. With resume requested over an entry that is finished with
  completed = total = \<open>k\<close>, it fetches the contact list from the source once,
  and hands the fetched items after the first \<open>k\<close> to the full-replace writer:
  the contact files are rewritten with that tail, which is empty when the
  source still lists \<open>k\<close> contacts. Progress is stamped finished again.
\<close>

theorem export_contacts_resume_finished:
  assumes "has_session w" and "progress_file w = Doc p"
    and "map_of p ''contacts'' = Some entry"
    and "pe_finished entry = Some True"
    and "pe_completed entry = Some k" and "pe_total entry = Some k" and "0 \<le> k"
    and "list_all (conforms contacts_fieldnames) items"
  shows "\<exists>w'. export_contacts (Inr items) True w = (Inr (length items), w') \<and>
           calls w' = calls w @ [GetContacts] \<and>
           contacts_json w' = Doc (drop (nat k) items) \<and>
           contacts_csv w' =
             Some (writeheader contacts_fieldnames #
                   map (row_of contacts_fieldnames) (drop (nat k) items)) \<and>
           (\<exists>t. map_of (stored_progress w') ''contacts'' =
                  Some \<lparr>pe_timestamp = Some t, pe_completed = Some (int (length items)),
                        pe_total = Some (int (length items)), pe_finished = Some True,
                        pe_processed_items = Some []\<rparr>)"
proof -
  have h: "healthy w" and s: "map_of (stored_progress w) ''contacts'' = Some entry"
    using assms healthy_Doc [of w p] by simp_all
  have r: "drop (nat k) items = py_slice_from items (get_or (pe_completed entry) 0)"
    using assms by (simp add: py_slice_from_def get_or_def)
  have c: "list_all (conforms contacts_fieldnames) (drop (nat k) items)"
    using assms by (auto simp add: list_all_iff dest: in_set_dropD)
  show ?thesis using export_contacts_resumed [OF h s r c] by blast
qed

theorem export_contacts_resume_finished_witness:
  "has_session example_finished_world \<and>
   progress_file example_finished_world = Doc [(''contacts'', example_entry 5 5 True)] \<and>
   pe_finished (example_entry 5 5 True) = Some True \<and>
   pe_completed (example_entry 5 5 True) = Some 5 \<and>
   pe_total (example_entry 5 5 True) = Some 5 \<and>
   list_all (conforms contacts_fieldnames) example_five_contacts \<and>
   (\<exists>w'. export_contacts (Inr example_five_contacts) True example_finished_world = (Inr 5, w') \<and>
      calls w' = [GetContacts] \<and>
      contacts_json w' = Doc [] \<and>
      contacts_csv w' = Some [writeheader contacts_fieldnames])"
proof -
  let ?p = "[(''contacts'', example_entry 5 5 True)]"
  have h: "has_session example_finished_world"
    by (simp add: example_finished_world_def example_world_def has_session_def)
  have f: "progress_file example_finished_world = Doc ?p"
    by (simp add: example_finished_world_def)
  have m: "map_of ?p ''contacts'' = Some (example_entry 5 5 True)" by simp
  have e: "pe_finished (example_entry 5 5 True) = Some True"
    "pe_completed (example_entry 5 5 True) = Some 5" "pe_total (example_entry 5 5 True) = Some 5"
    by (simp_all add: example_entry_def)
  have l: "length example_five_contacts = 5" "drop (nat 5) example_five_contacts = []"
    by (simp_all add: example_five_contacts_def)
  have c: "calls example_finished_world = []"
    by (simp add: example_finished_world_def example_world_def)
  show ?thesis
    using h f e example_five_conform l c
      export_contacts_resume_finished [OF h f m e(1) e(2) e(3) _ example_five_conform]
    by auto
qed

text \<open>
  The claim C1 as stated fails: on the finished session, with resume requested
  and the source still listing the five contacts, the pipeline calls the source
  and the contacts JSON file, which held the five contacts, ends empty.
\<close>

theorem export_contacts_resume_finished_counterexample:
  "calls example_finished_world = [] \<and>
   calls (snd (export_contacts (Inr example_five_contacts) True example_finished_world))
     = [GetContacts] \<and>
   contacts_json example_finished_world = Doc example_five_contacts \<and>
   contacts_json (snd (export_contacts (Inr example_five_contacts) True example_finished_world))
     = Doc [] \<and>
   example_five_contacts \<noteq> []"
  by code_simp

section \<open>Properties of the chat-member pipeline\<close>

lemma save_members_guard:
  "(if ms \<noteq> [] then save_chat_members_to_files ms f w else (Inr 0, w)) =
     save_chat_members_to_files ms f w"
  by (simp add: save_chat_members_to_files_def)

lemma save_members_healthy:
  assumes h: "healthy w" and c: "list_all (conforms members_fieldnames) ms"
    and csv: "members_csv w = members_csv_of acc" and json: "members_json w = members_json_of acc"
    and flag: "acc \<noteq> [] \<longrightarrow> f"
  shows "\<exists>w'. save_chat_members_to_files ms f w = (Inr (length ms), w') \<and> healthy w' \<and>
           members_csv w' = members_csv_of (acc @ ms) \<and>
           members_json w' = members_json_of (acc @ ms) \<and>
           calls w' = calls w"
proof (cases "ms = []")
  case True
  then show ?thesis using h csv json by (simp add: save_chat_members_to_files_def)
next
  case False
  show ?thesis
  proof (cases "acc = []")
    case True
    then show ?thesis using False h c csv json
      by (simp add: save_chat_members_to_files_def healthy_def has_session_def writerows_conforms
          members_csv_of_def members_json_of_def)
  next
    case acc: False
    then have "f" using flag by simp
    then show ?thesis using False acc h c csv json
      by (simp add: save_chat_members_to_files_def healthy_def has_session_def writerows_conforms
          members_csv_of_def members_json_of_def)
  qed
qed

lemma process_chat_step:
  assumes h: "healthy (st_world st)" and nin: "chat_id c \<notin> set (processed_chat_ids st)"
    and conf: "fetch_conforms fetch c"
    and csv: "members_csv (st_world st) = members_csv_of acc"
    and json: "members_json (st_world st) = members_json_of acc"
    and flag: "acc \<noteq> [] \<longrightarrow> processed_chat_ids st \<noteq> []"
  shows "processed_chat_ids (process_chat fetch t c st) = processed_chat_ids st @ [chat_id c] \<and>
         completed_chats (process_chat fetch t c st) = completed_chats st + 1 \<and>
         total_members (process_chat fetch t c st)
           = total_members st + length (ok_members (fetch c)) \<and>
         healthy (st_world (process_chat fetch t c st)) \<and>
         members_csv (st_world (process_chat fetch t c st))
           = members_csv_of (acc @ ok_members (fetch c)) \<and>
         members_json (st_world (process_chat fetch t c st))
           = members_json_of (acc @ ok_members (fetch c)) \<and>
         calls (st_world (process_chat fetch t c st))
           = calls (st_world st) @ [GetChatMembers (chat_id c)]"
proof -
  let ?w1 = "(st_world st)\<lparr>calls := calls (st_world st) @ [GetChatMembers (chat_id c)]\<rparr>"
  have h1: "healthy ?w1" using h by (simp add: healthy_def has_session_def)
  show ?thesis
  proof (cases "fetch c")
    case (Inl e)
    then show ?thesis using nin h1 csv json
      by (simp add: process_chat_def mark_processed_def ok_members_def)
  next
    case (Inr ms)
    have c: "list_all (conforms members_fieldnames) ms"
      using conf Inr by (simp add: fetch_conforms_def ok_members_def)
    let ?f = "0 < completed_chats st \<or> 0 < length (processed_chat_ids st)"
    have fl: "acc \<noteq> [] \<longrightarrow> ?f" using flag by simp
    obtain w2 where w2: "save_chat_members_to_files ms ?f ?w1 = (Inr (length ms), w2)"
        "healthy w2" "members_csv w2 = members_csv_of (acc @ ms)"
        "members_json w2 = members_json_of (acc @ ms)" "calls w2 = calls ?w1"
      using save_members_healthy [OF h1 c _ _ fl] csv json by auto
    let ?st2 = "(mark_processed c st w2)\<lparr>total_members := total_members st + length ms\<rparr>"
    obtain w3 where w3: "save_progress ''chat_members''
          \<lparr>pe_timestamp = None, pe_completed = Some (completed_chats ?st2),
           pe_total = Some t, pe_finished = Some (t \<le> completed_chats ?st2),
           pe_processed_items = Some (processed_chat_ids ?st2)\<rparr> w2 = (Inr (), w3)"
        "healthy w3" "progress_only w2 w3"
      using save_progress_healthy [OF w2(2)] by blast
    have run: "process_chat fetch t c st = ?st2\<lparr>st_world := w3\<rparr>"
      using nin Inr w2(1) w3(1)
      by (simp add: process_chat_def save_members_guard Let_def)
    show ?thesis
      using run w2 w3(2) progress_only_fields [OF w3(3)] Inr
      by (simp add: mark_processed_def ok_members_def)
  qed
qed


lemma process_chats_run:
  assumes "healthy (st_world st)" and "distinct (map chat_id chats)"
    and "set (map chat_id chats) \<inter> set (processed_chat_ids st) = {}"
    and "list_all (fetch_conforms fetch) chats"
    and "members_csv (st_world st) = members_csv_of acc"
    and "members_json (st_world st) = members_json_of acc"
    and "acc \<noteq> [] \<longrightarrow> processed_chat_ids st \<noteq> []"
  shows "processed_chat_ids (process_chats fetch t chats st)
           = processed_chat_ids st @ map chat_id chats \<and>
         completed_chats (process_chats fetch t chats st)
           = completed_chats st + int (length chats) \<and>
         total_members (process_chats fetch t chats st)
           = total_members st + length (fetched_ok fetch chats) \<and>
         healthy (st_world (process_chats fetch t chats st)) \<and>
         members_csv (st_world (process_chats fetch t chats st))
           = members_csv_of (acc @ fetched_ok fetch chats) \<and>
         members_json (st_world (process_chats fetch t chats st))
           = members_json_of (acc @ fetched_ok fetch chats) \<and>
         calls (st_world (process_chats fetch t chats st))
           = calls (st_world st) @ map (\<lambda>c. GetChatMembers (chat_id c)) chats"
  using assms
proof (induction chats arbitrary: st acc)
  case Nil
  then show ?case by (simp add: fetched_ok_def)
next
  case (Cons c rest)
  let ?st1 = "process_chat fetch t c st"
  have nin: "chat_id c \<notin> set (processed_chat_ids st)" using Cons.prems(3) by auto
  have conf: "fetch_conforms fetch c" using Cons.prems(4) by simp
  note step = process_chat_step [OF Cons.prems(1) nin conf Cons.prems(5) Cons.prems(6) Cons.prems(7), of t]
  have d: "distinct (map chat_id rest)" using Cons.prems(2) by simp
  have i: "set (map chat_id rest) \<inter> set (processed_chat_ids ?st1) = {}"
    using step Cons.prems(2) Cons.prems(3) by auto
  have l: "list_all (fetch_conforms fetch) rest" using Cons.prems(4) by simp
  have f: "acc @ ok_members (fetch c) \<noteq> [] \<longrightarrow> processed_chat_ids ?st1 \<noteq> []"
    using step by simp
  have ih: "processed_chat_ids (process_chats fetch t rest ?st1)
           = processed_chat_ids ?st1 @ map chat_id rest \<and>
         completed_chats (process_chats fetch t rest ?st1)
           = completed_chats ?st1 + int (length rest) \<and>
         total_members (process_chats fetch t rest ?st1)
           = total_members ?st1 + length (fetched_ok fetch rest) \<and>
         healthy (st_world (process_chats fetch t rest ?st1)) \<and>
         members_csv (st_world (process_chats fetch t rest ?st1))
           = members_csv_of ((acc @ ok_members (fetch c)) @ fetched_ok fetch rest) \<and>
         members_json (st_world (process_chats fetch t rest ?st1))
           = members_json_of ((acc @ ok_members (fetch c)) @ fetched_ok fetch rest) \<and>
         calls (st_world (process_chats fetch t rest ?st1))
           = calls (st_world ?st1) @ map (\<lambda>c. GetChatMembers (chat_id c)) rest"
    using Cons.IH [of ?st1 "acc @ ok_members (fetch c)"] step d i l f by blast
  have fo: "fetched_ok fetch (c # rest) = ok_members (fetch c) @ fetched_ok fetch rest"
    by (simp add: fetched_ok_def)
  show ?case using ih step by (simp add: fo)
qed

lemma save_members_calls: "calls (snd (save_chat_members_to_files ms f w)) = calls w"
  by (simp add: save_chat_members_to_files_def Let_def split: option.splits prod.splits sum.splits)

lemma save_progress_calls: "calls (snd (save_progress k d w)) = calls w"
  by (simp add: save_progress_def split: sum.splits)

lemma process_chat_calls:
  "\<exists>cs. calls (st_world (process_chat fetch t c st)) = calls (st_world st) @ cs \<and>
        (\<forall>i. GetChatMembers i \<in> set cs \<longrightarrow> i \<notin> set (processed_chat_ids st)) \<and>
        set (processed_chat_ids st) \<subseteq> set (processed_chat_ids (process_chat fetch t c st))"
proof (cases "chat_id c \<in> set (processed_chat_ids st)")
  case True
  then show ?thesis by (simp add: process_chat_def)
next
  case False
  let ?w1 = "(st_world st)\<lparr>calls := calls (st_world st) @ [GetChatMembers (chat_id c)]\<rparr>"
  have "calls (st_world (process_chat fetch t c st)) = calls (st_world st) @ [GetChatMembers (chat_id c)] \<and>
        set (processed_chat_ids st) \<subseteq> set (processed_chat_ids (process_chat fetch t c st))"
  proof (cases "fetch c")
    case (Inl e)
    then show ?thesis using False by (auto simp add: process_chat_def mark_processed_def)
  next
    case (Inr ms)
    let ?f = "0 < completed_chats st \<or> 0 < length (processed_chat_ids st)"
    obtain r2 w2 where s2: "save_chat_members_to_files ms ?f ?w1 = (r2, w2)" by force
    have c2: "calls w2 = calls ?w1" using save_members_calls [of ms ?f ?w1] s2 by simp
    show ?thesis
    proof (cases r2)
      case (Inl e)
      then show ?thesis using False Inr s2 c2
        by (auto simp add: process_chat_def save_members_guard mark_processed_def)
    next
      case n: (Inr n)
      let ?st2 = "(mark_processed c st w2)\<lparr>total_members := total_members st + length ms\<rparr>"
      let ?d = "\<lparr>pe_timestamp = None, pe_completed = Some (completed_chats ?st2),
           pe_total = Some t, pe_finished = Some (t \<le> completed_chats ?st2),
           pe_processed_items = Some (processed_chat_ids ?st2)\<rparr>"
      obtain r3 w3 where s3: "save_progress ''chat_members'' ?d w2 = (r3, w3)" by force
      have c3: "calls w3 = calls w2" using save_progress_calls [of "''chat_members''" ?d w2] s3 by simp
      show ?thesis using False Inr s2 n s3 c2 c3
        by (cases r3) (auto simp add: process_chat_def save_members_guard mark_processed_def Let_def)
    qed
  qed
  then show ?thesis using False by auto
qed

lemma process_chats_calls:
  "\<exists>cs. calls (st_world (process_chats fetch t chats st)) = calls (st_world st) @ cs \<and>
        (\<forall>i. GetChatMembers i \<in> set cs \<longrightarrow> i \<notin> set (processed_chat_ids st))"
proof (induction chats arbitrary: st)
  case Nil
  then show ?case by simp
next
  case (Cons c rest)
  let ?st1 = "process_chat fetch t c st"
  obtain cs1 where cs1: "calls (st_world ?st1) = calls (st_world st) @ cs1"
      "\<forall>i. GetChatMembers i \<in> set cs1 \<longrightarrow> i \<notin> set (processed_chat_ids st)"
      "set (processed_chat_ids st) \<subseteq> set (processed_chat_ids ?st1)"
    using process_chat_calls [of fetch t c st] by blast
  obtain cs2 where cs2: "calls (st_world (process_chats fetch t rest ?st1)) = calls (st_world ?st1) @ cs2"
      "\<forall>i. GetChatMembers i \<in> set cs2 \<longrightarrow> i \<notin> set (processed_chat_ids ?st1)"
    using Cons.IH [of ?st1] by blast
  have "calls (st_world (process_chats fetch t (c # rest) st)) = calls (st_world st) @ (cs1 @ cs2)"
    using cs1(1) cs2(1) by simp
  moreover have "\<forall>i. GetChatMembers i \<in> set (cs1 @ cs2) \<longrightarrow> i \<notin> set (processed_chat_ids st)"
    using cs1(2) cs1(3) cs2(2) by auto
  ultimately show ?case by blast
qed


lemma resume_skips_processed:
  assumes h: "healthy w" and e: "map_of (stored_progress w) ''chat_members'' = Some entry"
    and ids: "pe_processed_items entry = Some ids" and i: "i \<in> set ids"
  shows "GetChatMembers i \<notin>
           set (new_calls w (snd (export_chat_members (Inr chats2) fetch2 True w)))"
proof (cases "chats2 = []")
  case True
  then show ?thesis by (simp add: export_chat_members_def new_calls_def)
next
  case False
  let ?wa = "w\<lparr>calls := calls w @ [GetAllGroupChats]\<rparr>"
  let ?tot = "int (length chats2)"
  let ?init = "\<lparr>processed_chat_ids = ids, completed_chats = get_or (pe_completed entry) 0,
               total_members = 0, st_world = ?wa\<rparr>"
  have h0: "healthy ?wa" using h by (simp add: healthy_def has_session_def)
  have s0: "stored_progress ?wa = stored_progress w" by (simp add: stored_progress_def)
  have st: "start_state True ?wa = Inr ?init"
    using healthy_load [OF h0] s0 e ids by (simp add: start_state_def get_or_def)
  let ?fin = "process_chats fetch2 ?tot chats2 ?init"
  obtain cs where cs: "calls (st_world ?fin) = calls (st_world ?init) @ cs"
      "\<forall>j. GetChatMembers j \<in> set cs \<longrightarrow> j \<notin> set (processed_chat_ids ?init)"
    using process_chats_calls [of fetch2 ?tot chats2 ?init] by blast
  let ?d = "\<lparr>pe_timestamp = None, pe_completed = Some (completed_chats ?fin),
             pe_total = Some ?tot, pe_finished = Some True,
             pe_processed_items = Some (processed_chat_ids ?fin)\<rparr>"
  obtain r3 w3 where s3: "save_progress ''chat_members'' ?d (st_world ?fin) = (r3, w3)" by force
  have c3: "calls w3 = calls (st_world ?fin)"
    using save_progress_calls [of "''chat_members''" ?d "st_world ?fin"] s3 by simp
  have "snd (export_chat_members (Inr chats2) fetch2 True w) = w3"
    using False st s3 by (cases r3) (simp_all add: export_chat_members_def Let_def)
  then have "new_calls w (snd (export_chat_members (Inr chats2) fetch2 True w))
      = GetAllGroupChats # cs"
    using c3 cs(1) by (simp add: new_calls_def)
  then show ?thesis using cs(2) i by auto
qed

text \<open>
  C9. A fresh (non-resumed) chat-member run over a non-empty list of chats with
  pairwise different ids, on a session that is set and whose progress file is
  absent or parses, with a source that either raises or returns chat-member
  records for each chat. Whichever fetches raise, the run succeeds and returns
  the number of members fetched; the persisted entry for chat_members has
  completed = total = the number of chats, finished = true and the ids of all
  chats, failed ones included, as processed_items; the member files hold
  exactly the members of the chats whose fetch returned, in chat order (and do
  not exist when there are none); every chat was fetched once. On any later
  resumed run, whatever chat list and source it sees, no chat of this run is
  fetched again.
\<close>

theorem export_chat_members_failed_chat:
  assumes h: "has_session w" and p: "progress_file w \<noteq> Malformed" and ne: "chats \<noteq> []"
    and d: "distinct (map chat_id chats)" and c: "list_all (fetch_conforms fetch) chats"
  shows "\<exists>w'. export_chat_members (Inr chats) fetch False w
                 = (Inr (length (fetched_ok fetch chats)), w') \<and>
           (\<exists>t. map_of (stored_progress w') ''chat_members'' =
                  Some \<lparr>pe_timestamp = Some t, pe_completed = Some (int (length chats)),
                        pe_total = Some (int (length chats)), pe_finished = Some True,
                        pe_processed_items = Some (map chat_id chats)\<rparr>) \<and>
           progress_file w' = Doc (stored_progress w') \<and>
           members_json w' = members_json_of (fetched_ok fetch chats) \<and>
           members_csv w' = members_csv_of (fetched_ok fetch chats) \<and>
           new_calls w w' = GetAllGroupChats # map (\<lambda>c. GetChatMembers (chat_id c)) chats \<and>
           (\<forall>chats2 fetch2 x. x \<in> set chats \<longrightarrow>
              GetChatMembers (chat_id x) \<notin>
                set (new_calls w' (snd (export_chat_members (Inr chats2) fetch2 True w'))))"
proof -
  let ?wa = "w\<lparr>calls := calls w @ [GetAllGroupChats]\<rparr>"
  let ?wc = "?wa\<lparr>members_csv := None, members_json := Missing\<rparr>"
  let ?tot = "int (length chats)"
  let ?init = "\<lparr>processed_chat_ids = [], completed_chats = 0, total_members = 0, st_world = ?wc\<rparr>"
  have hc: "healthy (st_world ?init)" using h p by (simp add: healthy_def has_session_def)
  have st: "start_state False ?wa = Inr ?init"
    using h by (simp add: start_state_def has_session_def)
  let ?fin = "process_chats fetch ?tot chats ?init"
  have run: "processed_chat_ids ?fin = processed_chat_ids ?init @ map chat_id chats \<and>
         completed_chats ?fin = completed_chats ?init + int (length chats) \<and>
         total_members ?fin = total_members ?init + length (fetched_ok fetch chats) \<and>
         healthy (st_world ?fin) \<and>
         members_csv (st_world ?fin) = members_csv_of ([] @ fetched_ok fetch chats) \<and>
         members_json (st_world ?fin) = members_json_of ([] @ fetched_ok fetch chats) \<and>
         calls (st_world ?fin) = calls (st_world ?init) @ map (\<lambda>c. GetChatMembers (chat_id c)) chats"
    by (rule process_chats_run [OF hc d _ c])
       (simp_all add: members_csv_of_def members_json_of_def)
  let ?d = "\<lparr>pe_timestamp = None, pe_completed = Some (completed_chats ?fin),
             pe_total = Some ?tot, pe_finished = Some True,
             pe_processed_items = Some (processed_chat_ids ?fin)\<rparr>"
  have hs: "healthy (st_world ?fin)" using run by blast
  obtain w3 where w3: "save_progress ''chat_members'' ?d (st_world ?fin) = (Inr (), w3)"
      "healthy w3" "progress_only (st_world ?fin) w3"
      "stored_progress w3 = AList.update ''chat_members''
          (stamped_entry (clock (st_world ?fin)) ?d) (stored_progress (st_world ?fin))"
    using save_progress_healthy [OF hs] by blast
  have res: "export_chat_members (Inr chats) fetch False w = (Inr (total_members ?fin), w3)"
    using ne st w3(1) by (simp add: export_chat_members_def Let_def)
  have e: "map_of (stored_progress w3) ''chat_members'' =
      Some \<lparr>pe_timestamp = Some (clock (st_world ?fin)), pe_completed = Some ?tot,
            pe_total = Some ?tot, pe_finished = Some True,
            pe_processed_items = Some (map chat_id chats)\<rparr>"
    using w3(4) run by (simp add: AList.update_conv' stamped_entry_def get_or_def)
  have pf: "progress_file w3 = Doc (stored_progress w3)"
    using e by (cases "progress_file w3") (simp_all add: stored_progress_def)
  have fields: "members_json w3 = members_json_of (fetched_ok fetch chats)"
      "members_csv w3 = members_csv_of (fetched_ok fetch chats)"
      "calls w3 = calls w @ GetAllGroupChats # map (\<lambda>c. GetChatMembers (chat_id c)) chats"
    using progress_only_fields [OF w3(3)] run by simp_all
  have nc: "new_calls w w3 = GetAllGroupChats # map (\<lambda>c. GetChatMembers (chat_id c)) chats"
    using fields(3) by (simp add: new_calls_def)
  have later: "\<forall>chats2 fetch2 x. x \<in> set chats \<longrightarrow>
              GetChatMembers (chat_id x) \<notin>
                set (new_calls w3 (snd (export_chat_members (Inr chats2) fetch2 True w3)))"
    using resume_skips_processed [OF w3(2) e] by simp
  have tm: "total_members ?fin = length (fetched_ok fetch chats)" using run by simp
  have res': "export_chat_members (Inr chats) fetch False w
      = (Inr (length (fetched_ok fetch chats)), w3)"
    using res tm by simp
  have ex: "\<exists>t. map_of (stored_progress w3) ''chat_members'' =
                  Some \<lparr>pe_timestamp = Some t, pe_completed = Some (int (length chats)),
                        pe_total = Some (int (length chats)), pe_finished = Some True,
                        pe_processed_items = Some (map chat_id chats)\<rparr>"
    using e by blast
  show ?thesis
    by (rule exI [of _ w3]) (intro conjI res' ex pf fields(1) fields(2) nc later)
qed

lemma example_fetched_ok:
  "fetched_ok example_fetch [example_chat 1, example_chat 2, example_chat 3]
     = [example_member 1, example_member 3]"
  by (simp add: fetched_ok_def ok_members_def example_fetch_def example_chat_def)

lemma example_fetch_conforms:
  "list_all (fetch_conforms example_fetch) [example_chat 1, example_chat 2, example_chat 3]"
  by (simp add: fetch_conforms_def ok_members_def example_fetch_def example_chat_def
      example_member_conforms)

theorem export_chat_members_failed_chat_witness:
  "has_session example_world \<and> progress_file example_world \<noteq> Malformed \<and>
   distinct (map chat_id [example_chat 1, example_chat 2, example_chat 3]) \<and>
   list_all (fetch_conforms example_fetch) [example_chat 1, example_chat 2, example_chat 3] \<and>
   example_fetch (example_chat 2) = Inl RemoteError \<and>
   (\<exists>w'. export_chat_members (Inr [example_chat 1, example_chat 2, example_chat 3])
            example_fetch False example_world = (Inr 2, w') \<and>
      (\<exists>t. map_of (stored_progress w') ''chat_members'' =
             Some \<lparr>pe_timestamp = Some t, pe_completed = Some 3, pe_total = Some 3,
                   pe_finished = Some True, pe_processed_items = Some [1, 2, 3]\<rparr>) \<and>
      members_json w' = Doc [example_member 1, example_member 3] \<and>
      members_csv w' =
        Some [writeheader members_fieldnames, row_of members_fieldnames (example_member 1),
              row_of members_fieldnames (example_member 3)] \<and>
      GetChatMembers 2 \<notin>
        set (new_calls w' (snd (export_chat_members
               (Inr [example_chat 1, example_chat 2, example_chat 3]) example_fetch True w'))))"
proof -
  let ?chats = "[example_chat 1, example_chat 2, example_chat 3]"
  have h: "has_session example_world" by (simp add: has_session_def example_world_def)
  have p: "progress_file example_world \<noteq> Malformed" by (simp add: example_world_def)
  have n: "?chats \<noteq> []" by simp
  have d: "distinct (map chat_id ?chats)" by (simp add: example_chat_def)
  have ids: "map chat_id ?chats = [1, 2, 3]" by (simp add: example_chat_def)
  have f: "example_fetch (example_chat 2) = Inl RemoteError"
    by (simp add: example_fetch_def example_chat_def)
  have c2: "chat_id (example_chat 2) = 2" by (simp add: example_chat_def)
  obtain w' where w': "export_chat_members (Inr ?chats) example_fetch False example_world
        = (Inr (length (fetched_ok example_fetch ?chats)), w')"
      "\<exists>t. map_of (stored_progress w') ''chat_members'' =
             Some \<lparr>pe_timestamp = Some t, pe_completed = Some (int (length ?chats)),
                   pe_total = Some (int (length ?chats)), pe_finished = Some True,
                   pe_processed_items = Some (map chat_id ?chats)\<rparr>"
      "members_json w' = members_json_of (fetched_ok example_fetch ?chats)"
      "members_csv w' = members_csv_of (fetched_ok example_fetch ?chats)"
      "\<forall>chats2 fetch2 x. x \<in> set ?chats \<longrightarrow>
          GetChatMembers (chat_id x) \<notin>
            set (new_calls w' (snd (export_chat_members (Inr chats2) fetch2 True w')))"
    using export_chat_members_failed_chat [OF h p n d example_fetch_conforms] by blast
  have r: "GetChatMembers 2 \<notin>
        set (new_calls w' (snd (export_chat_members (Inr ?chats) example_fetch True w')))"
    using w'(5) c2 by (metis list.set_intros(1) list.set_intros(2))
  have a: "export_chat_members (Inr ?chats) example_fetch False example_world = (Inr 2, w')"
    using w'(1) by (simp add: example_fetched_ok)
  have b: "\<exists>t. map_of (stored_progress w') ''chat_members'' =
             Some \<lparr>pe_timestamp = Some t, pe_completed = Some 3, pe_total = Some 3,
                   pe_finished = Some True, pe_processed_items = Some [1, 2, 3]\<rparr>"
    using w'(2) ids by simp
  have j: "members_json w' = Doc [example_member 1, example_member 3]"
    using w'(3) by (simp add: example_fetched_ok members_json_of_def)
  have v: "members_csv w' =
        Some [writeheader members_fieldnames, row_of members_fieldnames (example_member 1),
              row_of members_fieldnames (example_member 3)]"
    using w'(4) by (simp add: example_fetched_ok members_csv_of_def)
  show ?thesis using h p d example_fetch_conforms f a b j v r by blast
qed

end
